theory Spec2Isabelle
  imports Complex_Main "HOL-Library.Sublist"
begin

section \<open>JavaScript values as the handlers see them\<close>

text \<open>
  The routes receive \<open>req.body\<close> as parsed JSON and inspect it dynamically, so the
  embedding works on untyped JavaScript values. A number carries the exact rational value
  of a finite double; \<open>JNaN\<close> is the not-a-number result of a failed conversion (the
  infinities, which only a literal such as \<open>1e999\<close> produces, are left out). An object is
  its list of own properties in insertion order, strings are ASCII text.
\<close>

datatype jsval =
    JUndefined
  | JNull
  | JBool bool
  | JNum rat
  | JNaN
  | JStr string
  | JArr "jsval list"
  | JObj "(string \<times> jsval) list"

text \<open>
  What a \<open>throw\<close> carries. \<open>Error m\<close> is an instance of \<open>Error\<close> with message \<open>m\<close>;
  \<open>TypeError\<close> and \<open>SyntaxError\<close> are the engine's own errors (instances of \<open>Error\<close>
  too, their message text belongs to the engine); \<open>Thrown v\<close> is any other value.
\<close>

datatype thrown = Error string | TypeError | SyntaxError | Thrown jsval

definition bind_e :: "thrown + 'a \<Rightarrow> ('a \<Rightarrow> thrown + 'b) \<Rightarrow> thrown + 'b" where
  "bind_e m f = (case m of Inl e \<Rightarrow> Inl e | Inr v \<Rightarrow> f v)"

text \<open>
  \<open>error instanceof Error ? error.message : 'Unknown error'\<close>. The message of an
  engine error is written as the name of its class.
\<close>

definition message_or_unknown :: "thrown \<Rightarrow> jsval" where
  "message_or_unknown e =
     (case e of
        Error m \<Rightarrow> JStr m
      | TypeError \<Rightarrow> JStr ''TypeError''
      | SyntaxError \<Rightarrow> JStr ''SyntaxError''
      | Thrown v \<Rightarrow> JStr ''Unknown error'')"

text \<open>Truthiness, as \<open>if (x)\<close>, \<open>!x\<close>, \<open>x && y\<close> and \<open>x || y\<close> test it.\<close>

fun truthy :: "jsval \<Rightarrow> bool" where
  "truthy JUndefined = False"
| "truthy JNull = False"
| "truthy (JBool b) = b"
| "truthy (JNum r) = (r \<noteq> 0)"
| "truthy JNaN = False"
| "truthy (JStr s) = (s \<noteq> [])"
| "truthy (JArr xs) = True"
| "truthy (JObj kvs) = True"

definition js_or :: "jsval \<Rightarrow> jsval \<Rightarrow> jsval" where
  "js_or a b = (if truthy a then a else b)"

text \<open>
  Property read \<open>v.k\<close> for the property names the routes use (none of them is on a
  prototype, apart from \<open>length\<close>). Reading a property of \<open>undefined\<close> or \<open>null\<close>
  throws a \<open>TypeError\<close>; a missing property is \<open>undefined\<close>.
\<close>

fun getp :: "jsval \<Rightarrow> string \<Rightarrow> thrown + jsval" where
  "getp JUndefined k = Inl TypeError"
| "getp JNull k = Inl TypeError"
| "getp (JObj kvs) k = Inr (case map_of kvs k of Some v \<Rightarrow> v | None \<Rightarrow> JUndefined)"
| "getp (JArr xs) k = Inr (if k = ''length'' then JNum (of_nat (length xs)) else JUndefined)"
| "getp (JStr s) k = Inr (if k = ''length'' then JNum (of_nat (length s)) else JUndefined)"
| "getp (JBool b) k = Inr JUndefined"
| "getp (JNum r) k = Inr JUndefined"
| "getp JNaN k = Inr JUndefined"

text \<open>Optional chaining \<open>v?.k\<close>: \<open>undefined\<close> instead of the \<open>TypeError\<close>.\<close>

definition getp_opt :: "jsval \<Rightarrow> string \<Rightarrow> jsval" where
  "getp_opt v k = (case getp v k of Inl e \<Rightarrow> JUndefined | Inr x \<Rightarrow> x)"

text \<open>Element read \<open>v[0]\<close>.\<close>

fun index0 :: "jsval \<Rightarrow> thrown + jsval" where
  "index0 JUndefined = Inl TypeError"
| "index0 JNull = Inl TypeError"
| "index0 (JArr xs) = Inr (case xs of [] \<Rightarrow> JUndefined | x # _ \<Rightarrow> x)"
| "index0 (JStr s) = Inr (case s of [] \<Rightarrow> JUndefined | c # _ \<Rightarrow> JStr [c])"
| "index0 (JObj kvs) = Inr (case map_of kvs ''0'' of Some v \<Rightarrow> v | None \<Rightarrow> JUndefined)"
| "index0 (JBool b) = Inr JUndefined"
| "index0 (JNum r) = Inr JUndefined"
| "index0 JNaN = Inr JUndefined"

definition index0_opt :: "jsval \<Rightarrow> jsval" where
  "index0_opt v = (case index0 v of Inl e \<Rightarrow> JUndefined | Inr x \<Rightarrow> x)"

subsection \<open>What the engine and the clock supply\<close>

text \<open>
  The conversions of ECMAScript that the source calls but does not define are parameters
  of the model: \<open>StringToNumber\<close> is \<open>ToNumber\<close> on strings, arrays and objects,
  \<open>ToString\<close> is the string conversion of a template literal on a value that is not
  a string, \<open>JSON_parse\<close> is \<open>JSON.parse\<close>, \<open>Date_parse\<close> is the time value of \<open>new Date(v)\<close>
  (\<open>None\<close> when it is \<open>NaN\<close>), \<open>getHours\<close> the local hour of a time value,
  \<open>now\<close> the time value of the \<open>new Date()\<close> in the date check and \<open>Date_now\<close> the
  later \<open>Date.now()\<close> of the confirmation number.
\<close>

record env =
  StringToNumber :: "jsval \<Rightarrow> jsval"
  ToString :: "jsval \<Rightarrow> string"
  JSON_parse :: "string \<Rightarrow> thrown + jsval"
  Date_parse :: "jsval \<Rightarrow> int option"
  getHours :: "int \<Rightarrow> int"
  now :: int
  Date_now :: int

definition ToNumber :: "env \<Rightarrow> jsval \<Rightarrow> jsval" where
  "ToNumber E v =
     (case v of
        JUndefined \<Rightarrow> JNaN
      | JNull \<Rightarrow> JNum 0
      | JBool b \<Rightarrow> JNum (if b then 1 else 0)
      | JNum r \<Rightarrow> JNum r
      | JNaN \<Rightarrow> JNaN
      | _ \<Rightarrow> StringToNumber E v)"

definition js_to_string :: "env \<Rightarrow> jsval \<Rightarrow> string" where
  "js_to_string E v = (case v of JStr s \<Rightarrow> s | _ \<Rightarrow> ToString E v)"

text \<open>\<open>n >= v\<close> and \<open>n <= v\<close> for a number \<open>n\<close>: false when \<open>v\<close> converts to \<open>NaN\<close>.\<close>

definition num_ge :: "env \<Rightarrow> rat \<Rightarrow> jsval \<Rightarrow> bool" where
  "num_ge E n v = (case ToNumber E v of JNum r \<Rightarrow> n \<ge> r | _ \<Rightarrow> False)"

definition num_le :: "env \<Rightarrow> rat \<Rightarrow> jsval \<Rightarrow> bool" where
  "num_le E n v = (case ToNumber E v of JNum r \<Rightarrow> n \<le> r | _ \<Rightarrow> False)"

text \<open>\<open>v > 0\<close>\<close>

definition gt_zero :: "env \<Rightarrow> jsval \<Rightarrow> bool" where
  "gt_zero E v = (case ToNumber E v of JNum r \<Rightarrow> r > 0 | _ \<Rightarrow> False)"

subsection \<open>Strings\<close>

definition lower_char :: "char \<Rightarrow> char" where
  "lower_char c =
     (case map_of (zip ''ABCDEFGHIJKLMNOPQRSTUVWXYZ'' ''abcdefghijklmnopqrstuvwxyz'') c of
        Some d \<Rightarrow> d
      | None \<Rightarrow> c)"

definition toLowerCase :: "string \<Rightarrow> string" where
  "toLowerCase s = map lower_char s"

text \<open>\<open>v.toLowerCase()\<close> on a value: only a string has the method.\<close>

definition js_toLowerCase :: "jsval \<Rightarrow> thrown + string" where
  "js_toLowerCase v = (case v of JStr s \<Rightarrow> Inr (toLowerCase s) | _ \<Rightarrow> Inl TypeError)"

fun starts_with :: "string \<Rightarrow> string \<Rightarrow> bool" where
  "starts_with s [] = True"
| "starts_with [] (c # cs) = False"
| "starts_with (d # ds) (c # cs) = (d = c \<and> starts_with ds cs)"

text \<open>\<open>s.includes(t)\<close>\<close>

fun str_includes :: "string \<Rightarrow> string \<Rightarrow> bool" where
  "str_includes [] t = (t = [])"
| "str_includes (d # ds) t = (starts_with (d # ds) t \<or> str_includes ds t)"

section \<open>The mock property service\<close>

record property =
  id_p :: string
  address :: string
  price :: rat
  bedrooms :: rat
  propertyType :: string
  description :: string

definition mockProperties :: "property list" where
  "mockProperties =
    [ \<lparr> id_p = ''prop1'', address = ''123 Main St, San Francisco, CA'', price = 1200000,
        bedrooms = 3, propertyType = ''Single Family Home'',
        description = ''Beautiful home in prime location'' \<rparr>,
      \<lparr> id_p = ''prop2'', address = ''456 Market St, San Francisco, CA'', price = 800000,
        bedrooms = 2, propertyType = ''Condo'',
        description = ''Modern condo with city views'' \<rparr>,
      \<lparr> id_p = ''prop3'', address = ''789 Congress Ave, Austin, Texas'', price = 950000,
        bedrooms = 3, propertyType = ''Single Family Home'',
        description = ''Spacious family home close to downtown Austin'' \<rparr>,
      \<lparr> id_p = ''prop4'', address = ''101 Barton Springs Rd, Austin, Texas'', price = 750000,
        bedrooms = 3, propertyType = ''Townhouse'',
        description = ''Modern townhome with access to Barton Springs'' \<rparr>,
      \<lparr> id_p = ''prop5'', address = ''222 East 6th St, Austin, Texas'', price = 650000,
        bedrooms = 2, propertyType = ''Condo'',
        description = ''Downtown condo in the heart of the entertainment district'' \<rparr> ]"

text \<open>
  \<open>Array.prototype.filter\<close> with a callback that may throw: the callback runs on the
  elements in order, and not at all on an empty array.
\<close>

fun filter_e :: "('a \<Rightarrow> thrown + bool) \<Rightarrow> 'a list \<Rightarrow> thrown + 'a list" where
  "filter_e f [] = Inr []"
| "filter_e f (x # xs) =
     (case f x of
        Inl e \<Rightarrow> Inl e
      | Inr b \<Rightarrow> (case filter_e f xs of Inl e \<Rightarrow> Inl e | Inr ys \<Rightarrow> Inr (if b then x # ys else ys)))"

text \<open>
  \<open>searchProperties\<close>. The module-level array is passed in and handed back, so that a
  write to it would show. Every property read of the source sits behind a truthiness
  test of the value it reads from, so none can throw; the model reads with \<open>getp_opt\<close>.
\<close>

record search_response =
  success :: bool
  properties :: "property list"

definition searchProperties ::
  "env \<Rightarrow> property list \<Rightarrow> jsval \<Rightarrow> (thrown + search_response) \<times> property list" where
  "searchProperties E store params0 =
    (let params = js_or params0 (JObj []);
         filtered0 = store;
         priceRange = getp_opt params ''priceRange'';
         pmin = getp_opt priceRange ''min'';
         pmax = getp_opt priceRange ''max'';
         filtered1 =
           (if truthy priceRange \<and> pmin \<noteq> JUndefined \<and> pmax \<noteq> JUndefined
            then filter (\<lambda>prop. num_ge E (price prop) pmin \<and> num_le E (price prop) pmax) filtered0
            else if truthy priceRange \<and> pmax \<noteq> JUndefined
            then filter (\<lambda>prop. num_le E (price prop) pmax) filtered0
            else filtered0);
         beds = getp_opt params ''bedrooms'';
         filtered2 =
           (if truthy beds then filter (\<lambda>prop. JNum (bedrooms prop) = beds) filtered1
            else filtered1);
         ptype = getp_opt params ''propertyType'';
         filtered3 =
           (if truthy ptype
            then filter_e (\<lambda>prop. bind_e (js_toLowerCase ptype)
                                   (\<lambda>t. Inr (toLowerCase (propertyType prop) = t))) filtered2
            else Inr filtered2);
         location = getp_opt params ''location''
     in (bind_e filtered3 (\<lambda>f3.
           bind_e (if truthy location
                   then bind_e (js_toLowerCase location)
                          (\<lambda>locationLower.
                             Inr (filter (\<lambda>prop. str_includes (toLowerCase (address prop)) locationLower) f3))
                   else Inr f3)
             (\<lambda>f4. Inr \<lparr> success = True, properties = f4 \<rparr>)),
         store))"

section \<open>The HubSpot client\<close>

text \<open>
  The CRM is outside the repository. The three SDK methods the code calls are parameters,
  over any state \<open>'s\<close> of the remote side; each either throws or answers.
  \<open>contacts_doSearch\<close> takes the property name, the operator, the value and the limit of
  the one filter the code sends, and answers with the ids of \<open>searchResponse.results\<close>.
  Every call the code issues is also recorded, in order, so that a theorem can say which
  calls were made.
\<close>

record 's hubspot_client =
  contacts_doSearch :: "'s \<Rightarrow> string \<Rightarrow> string \<Rightarrow> jsval \<Rightarrow> nat \<Rightarrow> thrown + string list"
  contacts_update :: "'s \<Rightarrow> string \<Rightarrow> (string \<times> jsval) list \<Rightarrow> thrown + 's"
  contacts_create :: "'s \<Rightarrow> (string \<times> jsval) list \<Rightarrow> thrown + string \<times> 's"

datatype api_call =
    DoSearch string string jsval nat
  | Update string "(string \<times> jsval) list"
  | Create "(string \<times> jsval) list"

record ContactData =
  email :: jsval
  firstName :: jsval
  lastName :: jsval
  phone :: jsval
  propertyInterest :: jsval

text \<open>\<open>{ id, updated: true }\<close> or \<open>{ id, created: true }\<close>; a flag left out is false.\<close>

record contact_result =
  contactId :: string
  updated :: bool
  created :: bool

definition createOrUpdateContact ::
  "'s hubspot_client \<Rightarrow> 's \<Rightarrow> ContactData \<Rightarrow> (thrown + contact_result) \<times> 's \<times> api_call list" where
  "createOrUpdateContact H s contactData =
    (let search = DoSearch ''email'' ''EQ'' (email contactData) 1 in
     case contacts_doSearch H s ''email'' ''EQ'' (email contactData) 1 of
       Inl e \<Rightarrow> (Inl e, s, [search])
     | Inr results \<Rightarrow>
         (case results of
            cid # _ \<Rightarrow>
              (let props = [(''firstname'', firstName contactData),
                            (''lastname'', lastName contactData),
                            (''phone'', phone contactData)] in
               case contacts_update H s cid props of
                 Inl e \<Rightarrow> (Inl e, s, [search, Update cid props])
               | Inr s' \<Rightarrow>
                   (Inr \<lparr> contactId = cid, updated = True, created = False \<rparr>, s',
                    [search, Update cid props]))
          | [] \<Rightarrow>
              (let props = [(''email'', email contactData),
                            (''firstname'', firstName contactData),
                            (''lastname'', lastName contactData),
                            (''phone'', phone contactData)] in
               case contacts_create H s props of
                 Inl e \<Rightarrow> (Inl e, s, [search, Create props])
               | Inr (newId, s') \<Rightarrow>
                   (Inr \<lparr> contactId = newId, updated = False, created = True \<rparr>, s',
                    [search, Create props]))))"

section \<open>Scheduling a viewing\<close>

text \<open>The decimal digits of \<open>Date.now().toString()\<close> and \<open>slice(-6)\<close>.\<close>

function dec_nat :: "nat \<Rightarrow> string" where
  "dec_nat n =
     (if n < 10 then [''0123456789'' ! n] else dec_nat (n div 10) @ [''0123456789'' ! (n mod 10)])"
  by pat_completeness auto
termination
  by (relation "measure id") auto

declare dec_nat.simps [simp del]

definition dec_int :: "int \<Rightarrow> string" where
  "dec_int i = (if i < 0 then CHR ''-'' # dec_nat (nat (- i)) else dec_nat (nat i))"

definition slice_last :: "nat \<Rightarrow> string \<Rightarrow> string" where
  "slice_last k str = drop (length str - k) str"

text \<open>\<open>str.split(' ')\<close>: the pieces between single spaces, never an empty array.\<close>

fun split_on :: "char \<Rightarrow> string \<Rightarrow> string list" where
  "split_on c [] = [[]]"
| "split_on c (x # xs) =
     (if x = c then [] # split_on c xs
      else (case split_on c xs of [] \<Rightarrow> [[x]] | piece # pieces \<Rightarrow> (x # piece) # pieces))"

definition js_split_space :: "jsval \<Rightarrow> thrown + string list" where
  "js_split_space v = (case v of JStr str \<Rightarrow> Inr (split_on CHR '' '' str) | _ \<Rightarrow> Inl TypeError)"

record viewing_response =
  v_success :: bool
  v_message :: string
  confirmationNumber :: string
  scheduledTime :: jsval
  propertyDetails_id :: string
  propertyDetails_address :: string

text \<open>
  The date check of \<open>scheduleViewing\<close> (its first \<open>try\<close> block). Every error it throws
  is an \<open>Error\<close>, which the \<open>catch\<close> rethrows as it is.
\<close>

definition validate_datetime :: "env \<Rightarrow> jsval \<Rightarrow> thrown + int" where
  "validate_datetime E datetime =
    (case Date_parse E datetime of
       None \<Rightarrow> Inl (Error ''Invalid date'')
     | Some parsedDate \<Rightarrow>
         if parsedDate < now E
         then Inl (Error ''Cannot schedule a viewing in the past. Please select a future date and time.'')
         else if getHours E parsedDate < 9 \<or> getHours E parsedDate \<ge> 17
         then Inl (Error ''Viewings can only be scheduled between 9 AM and 5 PM.'')
         else Inr parsedDate)"

text \<open>
  The HubSpot step of \<open>scheduleViewing\<close> (its second \<open>try\<close> block): whatever is thrown
  while the contact is built or synced is logged and dropped. What remains of the attempt
  is the state of the CRM and the calls made.
\<close>

definition viewing_contact_sync ::
  "'s hubspot_client \<Rightarrow> 's \<Rightarrow> jsval \<Rightarrow> property \<Rightarrow> 's \<times> api_call list" where
  "viewing_contact_sync H s params property =
    (if truthy (getp_opt params ''clientEmail'')
     then (case js_split_space (getp_opt params ''clientName'') of
             Inl e \<Rightarrow> (s, [])
           | Inr parts \<Rightarrow>
               (case createOrUpdateContact H s
                       \<lparr> email = getp_opt params ''clientEmail'',
                         firstName = JStr (hd parts),
                         lastName = js_or (case tl parts of [] \<Rightarrow> JUndefined | p # _ \<Rightarrow> JStr p)
                                      (JStr []),
                         phone = getp_opt params ''clientPhone'',
                         propertyInterest = JStr (address property) \<rparr> of
                  (r, s', calls) \<Rightarrow> (s', calls)))
     else (s, []))"

text \<open>
  \<open>scheduleViewing\<close>, on the module's property array, the CRM state and the parameters.
  It returns what it throws or answers, the property array, the CRM state and the CRM
  calls it made.
\<close>

definition scheduleViewing ::
  "env \<Rightarrow> 's hubspot_client \<Rightarrow> property list \<Rightarrow> 's \<Rightarrow> jsval
     \<Rightarrow> (thrown + viewing_response) \<times> property list \<times> 's \<times> api_call list" where
  "scheduleViewing E H store s params =
    (if \<not> truthy params then (Inl (Error ''No parameters provided''), store, s, [])
     else if \<not> truthy (getp_opt params ''propertyId'')
     then (Inl (Error ''Property ID is required''), store, s, [])
     else if \<not> truthy (getp_opt params ''datetime'')
     then (Inl (Error ''Datetime is required''), store, s, [])
     else if \<not> truthy (getp_opt params ''clientName'')
     then (Inl (Error ''Client name is required''), store, s, [])
     else if \<not> truthy (getp_opt params ''clientPhone'')
     then (Inl (Error ''Client phone is required''), store, s, [])
     else
       (case find (\<lambda>p. JStr (id_p p) = getp_opt params ''propertyId'') store of
          None \<Rightarrow>
            (Inl (Error (''Property not found with ID: '' @
                           js_to_string E (getp_opt params ''propertyId''))), store, s, [])
        | Some property \<Rightarrow>
            (case validate_datetime E (getp_opt params ''datetime'') of
               Inl e \<Rightarrow> (Inl e, store, s, [])
             | Inr parsedDate \<Rightarrow>
                 (let confirmation = ''VIEW-'' @ slice_last 6 (dec_int (Date_now E));
                      synced = viewing_contact_sync H s params property
                  in (Inr \<lparr> v_success = True,
                             v_message = ''Viewing scheduled successfully'',
                             confirmationNumber = confirmation,
                             scheduledTime = getp_opt params ''datetime'',
                             propertyDetails_id = id_p property,
                             propertyDetails_address = address property \<rparr>,
                      store, fst synced, snd synced)))))"

section \<open>The HTTP routes\<close>

text \<open>
  A request is its headers and its parsed JSON body; a response is the status and the
  value handed to \<open>res.json\<close>. The body is what \<open>express.json()\<close> yields, an object
  or an array. Console output is not part of the model.
\<close>

record request =
  headers :: "(string \<times> string) list"
  body :: jsval

record response =
  status :: nat
  json :: jsval

text \<open>\<open>{ results: [{ toolCallId, result }] }\<close>\<close>

definition envelope :: "jsval \<Rightarrow> jsval \<Rightarrow> jsval" where
  "envelope toolCallId result =
     JObj [(''results'', JArr [JObj [(''toolCallId'', toolCallId), (''result'', result)]])]"

definition missing_toolCallId :: response where
  "missing_toolCallId =
     \<lparr> status = 400, json = JObj [(''error'', JStr ''Missing toolCallId in request'')] \<rparr>"

definition invalid_format :: response where
  "invalid_format = \<lparr> status = 400, json = JObj [(''error'', JStr ''Invalid request format'')] \<rparr>"

text \<open>
  The test all three routes start with:
  \<open>req.body.message && req.body.message.toolCalls && req.body.message.toolCalls.length > 0\<close>.
  Only the first read can throw.
\<close>

definition nested_shape :: "env \<Rightarrow> jsval \<Rightarrow> thrown + bool" where
  "nested_shape E b =
     bind_e (getp b ''message'') (\<lambda>message.
       Inr (truthy message \<and> truthy (getp_opt message ''toolCalls'') \<and>
            gt_zero E (getp_opt (getp_opt message ''toolCalls'') ''length'')))"

text \<open>\<open>req.body.toolCallId && req.body.parameters\<close>, in either order.\<close>

definition flat_shape :: "jsval \<Rightarrow> bool" where
  "flat_shape b = (truthy (getp_opt b ''toolCallId'') \<and> truthy (getp_opt b ''parameters''))"

text \<open>
  The first lines of the nested branch: \<open>toolCall = req.body.message.toolCalls[0]\<close>,
  \<open>toolCallId = toolCall.id\<close>, \<open>args = toolCall.function.arguments\<close>.
\<close>

definition nested_toolCall :: "jsval \<Rightarrow> thrown + jsval \<times> jsval" where
  "nested_toolCall b =
     bind_e (index0 (getp_opt (getp_opt b ''message'') ''toolCalls'')) (\<lambda>toolCall.
     bind_e (getp toolCall ''id'') (\<lambda>toolCallId.
     bind_e (getp toolCall ''function'') (\<lambda>fn.
     bind_e (getp fn ''arguments'') (\<lambda>args. Inr (toolCallId, args)))))"

text \<open>
  What the step "extract parameters" of a route ends with: the tool-call id and the
  parameters, or a response sent at once.
\<close>

datatype extraction = Extracted jsval jsval | Reply response

subsection \<open>POST /search\<close>

definition search_extract :: "env \<Rightarrow> jsval \<Rightarrow> thrown + extraction" where
  "search_extract E b =
     bind_e (nested_shape E b) (\<lambda>nested.
       if nested then
         bind_e (nested_toolCall b) (\<lambda>(toolCallId, args).
         bind_e (getp args ''bedrooms'') (\<lambda>beds.
         bind_e (getp args ''location'') (\<lambda>location.
         bind_e (getp args ''propertyType'') (\<lambda>ptype.
         bind_e (getp args ''priceRange'') (\<lambda>priceRange.
           let searchParams = [(''bedrooms'', beds), (''location'', location),
                               (''propertyType'', ptype)];
               pMin = getp_opt priceRange ''Min'';
               pMax = getp_opt priceRange ''Max''
           in Inr (Extracted toolCallId
                (JObj (if truthy priceRange
                       then searchParams @
                            [(''priceRange'',
                              JObj [(''min'', if truthy pMin then ToNumber E pMin else JNum 0),
                                    (''max'', if truthy pMax then ToNumber E pMax
                                              else JNum 10000000)])]
                       else searchParams))))))))
       else if flat_shape b
       then Inr (Extracted (getp_opt b ''toolCallId'') (getp_opt b ''parameters''))
       else Inr (Reply invalid_format))"

definition property_json :: "property \<Rightarrow> jsval" where
  "property_json p =
     JObj [(''id'', JStr (id_p p)), (''address'', JStr (address p)), (''price'', JNum (price p)),
           (''bedrooms'', JNum (bedrooms p)), (''propertyType'', JStr (propertyType p)),
           (''description'', JStr (description p))]"

definition search_route ::
  "env \<Rightarrow> property list \<Rightarrow> request \<Rightarrow> response \<times> property list" where
  "search_route E store req =
    (let failed = (\<lambda>e.
           \<lparr> status = 500,
             json = envelope
                      (js_or (getp_opt (index0_opt (getp_opt (getp_opt (body req) ''message'')
                                                      ''toolCalls'')) ''id'')
                             (getp_opt (body req) ''toolCallId''))
                      (JObj [(''success'', JBool False),
                             (''error'', JStr ''Failed to search properties''),
                             (''message'', message_or_unknown e)]) \<rparr>)
     in case search_extract E (body req) of
          Inl e \<Rightarrow> (failed e, store)
        | Inr (Reply r) \<Rightarrow> (r, store)
        | Inr (Extracted toolCallId searchParams) \<Rightarrow>
            if \<not> truthy toolCallId then (missing_toolCallId, store)
            else (case searchProperties E store searchParams of
                    (Inl e, store') \<Rightarrow> (failed e, store')
                  | (Inr found, store') \<Rightarrow>
                      (\<lparr> status = 200,
                         json = envelope toolCallId
                                  (JObj [(''success'', JBool True),
                                         (''properties'',
                                          JArr (map property_json (properties found)))]) \<rparr>,
                       store')))"

subsection \<open>POST /schedule-viewing and POST /sync-contact\<close>

text \<open>
  Both routes take the arguments of the nested shape as they are, or parsed when they
  arrive as a JSON string; a parse error leaves the string in place.
\<close>

definition parse_args :: "env \<Rightarrow> jsval \<Rightarrow> jsval" where
  "parse_args E args =
     (case args of
        JStr str \<Rightarrow> (case JSON_parse E str of Inl e \<Rightarrow> args | Inr v \<Rightarrow> v)
      | _ \<Rightarrow> args)"

definition schedule_extract :: "env \<Rightarrow> jsval \<Rightarrow> thrown + jsval \<times> jsval" where
  "schedule_extract E b =
     bind_e (nested_shape E b) (\<lambda>nested.
       if nested then
         bind_e (nested_toolCall b) (\<lambda>(toolCallId, args). Inr (toolCallId, parse_args E args))
       else if flat_shape b
       then Inr (getp_opt b ''toolCallId'', getp_opt b ''parameters'')
       else Inr (js_or (getp_opt b ''toolCallId'') (JStr ''unknown''), b))"

definition viewing_json :: "viewing_response \<Rightarrow> jsval" where
  "viewing_json r =
     JObj [(''success'', JBool (v_success r)),
           (''message'', JStr (v_message r)),
           (''details'',
            JObj [(''confirmationNumber'', JStr (confirmationNumber r)),
                  (''scheduledTime'', scheduledTime r),
                  (''propertyDetails'',
                   JObj [(''id'', JStr (propertyDetails_id r)),
                         (''address'', JStr (propertyDetails_address r))])])]"

definition schedule_viewing_route ::
  "env \<Rightarrow> 's hubspot_client \<Rightarrow> property list \<Rightarrow> 's \<Rightarrow> request
     \<Rightarrow> response \<times> property list \<times> 's \<times> api_call list" where
  "schedule_viewing_route E H store s req =
    (case schedule_extract E (body req) of
       Inl outerError \<Rightarrow>
         (\<lparr> status = 500,
            json = envelope (js_or (getp_opt (body req) ''toolCallId'') (JStr ''unknown''))
                     (JObj [(''success'', JBool False),
                            (''message'', JStr ''Failed to schedule viewing due to server error''),
                            (''error'', message_or_unknown outerError)]) \<rparr>,
          store, s, [])
     | Inr (toolCallId, viewingParams) \<Rightarrow>
         if \<not> truthy toolCallId then (missing_toolCallId, store, s, [])
         else (case scheduleViewing E H store s viewingParams of
                 (Inl schedulingError, rest) \<Rightarrow>
                   (\<lparr> status = 500,
                      json = envelope toolCallId
                               (JObj [(''success'', JBool False),
                                      (''message'', JStr ''Failed to schedule viewing''),
                                      (''error'', message_or_unknown schedulingError)]) \<rparr>,
                    rest)
               | (Inr result, rest) \<Rightarrow>
                   (\<lparr> status = 200, json = envelope toolCallId (viewing_json result) \<rparr>, rest)))"

definition sync_extract :: "env \<Rightarrow> jsval \<Rightarrow> thrown + jsval \<times> jsval" where
  "sync_extract E b =
     bind_e (nested_shape E b) (\<lambda>nested.
       if nested then
         bind_e (nested_toolCall b) (\<lambda>(toolCallId, args). Inr (toolCallId, parse_args E args))
       else if flat_shape b
       then Inr (getp_opt b ''toolCallId'', getp_opt b ''parameters'')
       else Inr (js_or (getp_opt b ''toolCallId'') (JStr ''unknown''),
                 JObj [(''email'', getp_opt b ''email''),
                       (''firstName'', getp_opt b ''firstName''),
                       (''lastName'', getp_opt b ''lastName''),
                       (''phone'', getp_opt b ''phone''),
                       (''propertyInterest'', getp_opt b ''propertyInterest'')]))"

definition sync_contact_route ::
  "env \<Rightarrow> 's hubspot_client \<Rightarrow> 's \<Rightarrow> request \<Rightarrow> response \<times> 's \<times> api_call list" where
  "sync_contact_route E H s req =
    (let failed = (\<lambda>e.
           \<lparr> status = 500,
             json = envelope (js_or (getp_opt (body req) ''toolCallId'') (JStr ''unknown''))
                      (JObj [(''success'', JBool False),
                             (''error'', JStr ''Failed to sync contact with HubSpot''),
                             (''details'', message_or_unknown e)]) \<rparr>)
     in case sync_extract E (body req) of
          Inl e \<Rightarrow> (failed e, s, [])
        | Inr (toolCallId, contactParams) \<Rightarrow>
            if \<not> truthy toolCallId then (missing_toolCallId, s, [])
            else (case getp contactParams ''email'' of
                    Inl e \<Rightarrow> (failed e, s, [])
                  | Inr em \<Rightarrow>
                      if \<not> truthy em
                      then (\<lparr> status = 400,
                              json = envelope toolCallId
                                       (JObj [(''success'', JBool False),
                                              (''error'', JStr ''Email is required'')]) \<rparr>,
                            s, [])
                      else (case createOrUpdateContact H s
                                   \<lparr> email = em,
                                     firstName = js_or (getp_opt contactParams ''firstName'') (JStr []),
                                     lastName = js_or (getp_opt contactParams ''lastName'') (JStr []),
                                     phone = js_or (getp_opt contactParams ''phone'') (JStr []),
                                     propertyInterest =
                                       js_or (getp_opt contactParams ''propertyInterest'') (JStr []) \<rparr> of
                              (Inl e, s', calls) \<Rightarrow> (failed e, s', calls)
                            | (Inr result, s', calls) \<Rightarrow>
                                (\<lparr> status = 200,
                                   json = envelope toolCallId
                                            (JObj [(''success'', JBool True),
                                                   (''contactId'', JStr (contactId result)),
                                                   (''message'',
                                                    JStr (if created result
                                                          then ''Contact created successfully''
                                                          else ''Contact updated successfully''))]) \<rparr>,
                                 s', calls))))"

subsection \<open>The middleware in front of /api/vapi\<close>

datatype middleware_result = Next | Respond response

text \<open>\<open>validateVapiSecret\<close>: it logs and then \<open>return next()\<close>; the check is commented out.\<close>

definition validateVapiSecret :: "request \<Rightarrow> middleware_result" where
  "validateVapiSecret req = Next"

datatype vapi_route = PropertySearch | ScheduleViewing | SyncContact

text \<open>
  \<open>app.use('/api/vapi', validateVapiSecret)\<close> and then the routers. The answer is the
  response together with the property array, the CRM state and the CRM calls.
\<close>

definition vapi_app ::
  "env \<Rightarrow> 's hubspot_client \<Rightarrow> property list \<Rightarrow> 's \<Rightarrow> vapi_route \<Rightarrow> request
     \<Rightarrow> response \<times> property list \<times> 's \<times> api_call list" where
  "vapi_app E H store s route req =
    (case validateVapiSecret req of
       Respond r \<Rightarrow> (r, store, s, [])
     | Next \<Rightarrow>
         (case route of
            PropertySearch \<Rightarrow>
              (case search_route E store req of (r, store') \<Rightarrow> (r, store', s, []))
          | ScheduleViewing \<Rightarrow> schedule_viewing_route E H store s req
          | SyncContact \<Rightarrow>
              (case sync_contact_route E H s req of (r, s', calls) \<Rightarrow> (r, store, s', calls))))"

section \<open>Concrete surroundings for the worked examples\<close>

text \<open>
  A UTC clock standing at 2026-11-02 12:00, an engine that knows one date string and
  parses no JSON text, a CRM that is down, and a CRM kept in memory as a list of contacts
  with their ids.
\<close>

definition sample_env :: env where
  "sample_env =
     \<lparr> StringToNumber = (\<lambda>v. JNaN),
       ToString = (\<lambda>v. ''[object Object]''),
       JSON_parse = (\<lambda>str. Inl SyntaxError),
       Date_parse = (\<lambda>v. if v = JStr ''2030-06-03T10:00:00Z'' then Some 1906711200000
                           else if v = JStr ''2030-06-03T20:00:00Z'' then Some 1906747200000
                           else if v = JStr ''2020-06-03T10:00:00Z'' then Some 1591178400000
                           else None),
       getHours = (\<lambda>t. (t div 3600000) mod 24),
       now = 1793620800000,
       Date_now = 1793620800123 \<rparr>"

definition down_hubspot :: "unit hubspot_client" where
  "down_hubspot =
     \<lparr> contacts_doSearch = (\<lambda>s name operator v limit. Inl (Error ''HubSpot unavailable'')),
       contacts_update = (\<lambda>s cid props. Inl (Error ''HubSpot unavailable'')),
       contacts_create = (\<lambda>s props. Inl (Error ''HubSpot unavailable'')) \<rparr>"

type_synonym crm = "(string \<times> (string \<times> jsval) list) list"

definition memory_hubspot :: "crm hubspot_client" where
  "memory_hubspot =
     \<lparr> contacts_doSearch = (\<lambda>s name operator v limit.
          Inr (take limit (map fst (filter (\<lambda>c. map_of (snd c) name = Some v) s)))),
       contacts_update = (\<lambda>s cid props.
          if cid \<in> set (map fst s)
          then Inr (map (\<lambda>c. if fst c = cid then (cid, props @ snd c) else c) s)
          else Inl (Error ''not found'')),
       contacts_create = (\<lambda>s props.
          Inr (''contact-'' @ replicate (length s) CHR ''I'', 
               s @ [(''contact-'' @ replicate (length s) CHR ''I'', props)])) \<rparr>"

definition nested_request :: "jsval \<Rightarrow> jsval \<Rightarrow> jsval" where
  "nested_request toolCallId args =
     JObj [(''message'',
            JObj [(''toolCalls'',
                   JArr [JObj [(''id'', toolCallId),
                               (''function'', JObj [(''arguments'', args)])]])])]"

definition flat_request :: "jsval \<Rightarrow> jsval \<Rightarrow> jsval" where
  "flat_request toolCallId args = JObj [(''toolCallId'', toolCallId), (''parameters'', args)]"


text \<open>Calls of the two services one after the other, each under the clock of its moment.\<close>

datatype service_call = CallSearch env jsval | CallSchedule env jsval

fun run_calls ::
  "'s hubspot_client \<Rightarrow> property list \<Rightarrow> 's \<Rightarrow> service_call list \<Rightarrow> property list \<times> 's" where
  "run_calls H store s [] = (store, s)"
| "run_calls H store s (CallSearch E p # cs) =
     run_calls H (snd (searchProperties E store p)) s cs"
| "run_calls H store s (CallSchedule E p # cs) =
     (case scheduleViewing E H store s p of (r, store', s', calls) \<Rightarrow> run_calls H store' s' cs)"

definition sample_crm :: crm where
  "sample_crm =
     [(''contact-'', [(''email'', JStr ''ada@example.com''), (''firstname'', JStr ''Ada''),
                      (''lastname'', JStr ''Lovelace''), (''phone'', JStr ''555-0100'')])]"

text \<open>
  The date part of the claim about \<open>scheduleViewing\<close>, in the claim's words: the
  datetime does not parse to a valid date, or the parsed date is earlier than the current
  time, or the parsed hour is before 9 or at or after 17.
\<close>

definition date_rejected :: "env \<Rightarrow> jsval \<Rightarrow> bool" where
  "date_rejected E datetime =
     (case Date_parse E datetime of
        None \<Rightarrow> True
      | Some t \<Rightarrow> t < now E \<or> getHours E t < 9 \<or> 17 \<le> getHours E t)"

text \<open>The required fields of a viewing, in the order checked, with the error of each.\<close>

definition required_fields :: "(string \<times> string) list" where
  "required_fields =
     [(''propertyId'', ''Property ID is required''),
      (''datetime'', ''Datetime is required''),
      (''clientName'', ''Client name is required''),
      (''clientPhone'', ''Client phone is required'')]"

text \<open>
  A search-parameter object as the type \<open>PropertySearchParams\<close> has it: an optional
  \<open>priceRange\<close> with numbers \<open>min\<close> and \<open>max\<close>, an optional number \<open>bedrooms\<close>,
  optional strings \<open>location\<close> and \<open>propertyType\<close>.
\<close>

definition well_typed_search :: "jsval \<Rightarrow> bool" where
  "well_typed_search p =
     (case p of
        JObj kvs \<Rightarrow>
          (case getp_opt p ''priceRange'' of
             JUndefined \<Rightarrow> True
           | JObj r \<Rightarrow>
               (case (getp_opt (JObj r) ''min'', getp_opt (JObj r) ''max'') of
                  (JNum lo, JNum hi) \<Rightarrow> True
                | _ \<Rightarrow> False)
           | _ \<Rightarrow> False) \<and>
          (case getp_opt p ''bedrooms'' of JUndefined \<Rightarrow> True | JNum n \<Rightarrow> True | _ \<Rightarrow> False) \<and>
          (case getp_opt p ''propertyType'' of JUndefined \<Rightarrow> True | JStr t \<Rightarrow> True | _ \<Rightarrow> False) \<and>
          (case getp_opt p ''location'' of JUndefined \<Rightarrow> True | JStr l \<Rightarrow> True | _ \<Rightarrow> False)
      | _ \<Rightarrow> False)"

text \<open>
  The filters in the words of the claim: a property matches when its price lies in the
  given range, its bedrooms equal the given number, its type equals the given type
  without regard to case and the given location is, without regard to case, a substring
  of its address; a filter that is not given excludes nothing.
\<close>

definition claimed_match :: "jsval \<Rightarrow> property \<Rightarrow> bool" where
  "claimed_match p prop =
     ((case (getp_opt (getp_opt p ''priceRange'') ''min'',
             getp_opt (getp_opt p ''priceRange'') ''max'') of
         (JNum lo, JNum hi) \<Rightarrow> lo \<le> price prop \<and> price prop \<le> hi
       | _ \<Rightarrow> True) \<and>
      (case getp_opt p ''bedrooms'' of JNum n \<Rightarrow> bedrooms prop = n | _ \<Rightarrow> True) \<and>
      (case getp_opt p ''propertyType'' of
         JStr t \<Rightarrow> toLowerCase (propertyType prop) = toLowerCase t
       | _ \<Rightarrow> True) \<and>
      (case getp_opt p ''location'' of
         JStr l \<Rightarrow> sublist (toLowerCase l) (toLowerCase (address prop))
       | _ \<Rightarrow> True))"

text \<open>
  The same filters with the code's notion of a given value: a \<open>bedrooms\<close> of 0 and an
  empty \<open>propertyType\<close> count as not given.
\<close>

definition amended_match :: "jsval \<Rightarrow> property \<Rightarrow> bool" where
  "amended_match p prop =
     ((case (getp_opt (getp_opt p ''priceRange'') ''min'',
             getp_opt (getp_opt p ''priceRange'') ''max'') of
         (JNum lo, JNum hi) \<Rightarrow> lo \<le> price prop \<and> price prop \<le> hi
       | _ \<Rightarrow> True) \<and>
      (case getp_opt p ''bedrooms'' of JNum n \<Rightarrow> n = 0 \<or> bedrooms prop = n | _ \<Rightarrow> True) \<and>
      (case getp_opt p ''propertyType'' of
         JStr t \<Rightarrow> t = [] \<or> toLowerCase (propertyType prop) = toLowerCase t
       | _ \<Rightarrow> True) \<and>
      (case getp_opt p ''location'' of
         JStr l \<Rightarrow> sublist (toLowerCase l) (toLowerCase (address prop))
       | _ \<Rightarrow> True))"

section \<open>The property array is only read\<close>

lemma searchProperties_store: "snd (searchProperties E store p) = store"
  by (simp add: searchProperties_def Let_def)

lemma scheduleViewing_store: "fst (snd (scheduleViewing E H store s p)) = store"
  by (simp add: scheduleViewing_def Let_def split: option.splits sum.splits)

lemma run_calls_store: "fst (run_calls H store s cs) = store"
proof (induction cs arbitrary: store s)
  case Nil
  show ?case by simp
next
  case (Cons c cs)
  show ?case
  proof (cases c)
    case (CallSearch E p)
    then show ?thesis using Cons.IH by (simp add: searchProperties_store)
  next
    case (CallSchedule E p)
    obtain r st s' calls where sv: "scheduleViewing E H store s p = (r, st, s', calls)"
      by (cases "scheduleViewing E H store s p") auto
    have "st = store" using scheduleViewing_store [of E H store s p] sv by simp
    then show ?thesis using CallSchedule sv Cons.IH by simp
  qed
qed

lemma search_route_store: "snd (search_route E store req) = store"
proof (cases "search_extract E (body req)")
  case (Inl e)
  then show ?thesis by (simp add: search_route_def Let_def)
next
  case (Inr x)
  show ?thesis
  proof (cases x)
    case (Reply r)
    with Inr show ?thesis by (simp add: search_route_def Let_def)
  next
    case (Extracted t p)
    obtain r st where sp: "searchProperties E store p = (r, st)"
      by (cases "searchProperties E store p") auto
    have "st = store" using searchProperties_store [of E store p] sp by simp
    with Inr Extracted sp show ?thesis
      by (cases r) (simp_all add: search_route_def Let_def)
  qed
qed

lemma schedule_route_store: "fst (snd (schedule_viewing_route E H store s req)) = store"
proof (cases "schedule_extract E (body req)")
  case (Inl e)
  then show ?thesis by (simp add: schedule_viewing_route_def)
next
  case (Inr x)
  obtain t p where x: "x = (t, p)" by (cases x) auto
  obtain r st s' calls where sv: "scheduleViewing E H store s p = (r, st, s', calls)"
    by (cases "scheduleViewing E H store s p") auto
  have "st = store" using scheduleViewing_store [of E H store s p] sv by simp
  with Inr x sv show ?thesis
    by (cases r) (simp_all add: schedule_viewing_route_def)
qed

lemma vapi_app_store: "fst (snd (vapi_app E H store s route req)) = store"
proof (cases route)
  case PropertySearch
  obtain r st where sr: "search_route E store req = (r, st)"
    by (cases "search_route E store req") auto
  have "st = store" using search_route_store [of E store req] sr by simp
  with PropertySearch sr show ?thesis by (simp add: vapi_app_def validateVapiSecret_def)
next
  case ScheduleViewing
  then show ?thesis by (simp add: vapi_app_def validateVapiSecret_def schedule_route_store)
next
  case SyncContact
  then show ?thesis
    by (simp add: vapi_app_def validateVapiSecret_def split: prod.splits)
qed

text \<open>
  Claim C8. No service and no route writes to the shared property array: whatever the
  input, \<open>searchProperties\<close>, \<open>scheduleViewing\<close> and the three routes hand back the
  array they were given, so after any sequence of calls the array is still the literal
  of five properties.
\<close>

theorem mockProperties_unchanged:
  "snd (searchProperties E mockProperties p) = mockProperties \<and>
   fst (snd (scheduleViewing E' H mockProperties s q)) = mockProperties \<and>
   fst (snd (vapi_app E H mockProperties s route req)) = mockProperties \<and>
   fst (run_calls H mockProperties s cs) = mockProperties \<and>
   length mockProperties = 5 \<and>
   map id_p mockProperties = [''prop1'', ''prop2'', ''prop3'', ''prop4'', ''prop5'']"
proof -
  have "length mockProperties = 5"
    and "map id_p mockProperties = [''prop1'', ''prop2'', ''prop3'', ''prop4'', ''prop5'']"
    by (simp_all add: mockProperties_def)
  then show ?thesis
    by (simp only: searchProperties_store scheduleViewing_store vapi_app_store
          run_calls_store simp_thms)
qed

section \<open>The secret header is not looked at\<close>







section \<open>Contacts are keyed by email\<close>

text \<open>
  Claim C3. \<open>createOrUpdateContact\<close> deduplicates by email. Its first CRM call is always
  the search for contacts whose \<open>email\<close> equals the given one. When the search answers
  with a match and the update goes through, the only other call is the update of that
  contact's first name, last name and phone, nothing is created, and the result is that
  contact's id with \<open>updated\<close> set. When the search answers with no match and the
  creation goes through, the only other call creates a contact with the given email, and
  the result is the new id with \<open>created\<close> set.
\<close>

theorem createOrUpdateContact_dedup:
  "(\<exists>more. snd (snd (createOrUpdateContact H s c)) =
            DoSearch ''email'' ''EQ'' (email c) 1 # more) \<and>
   (contacts_doSearch H s ''email'' ''EQ'' (email c) 1 = Inr (cid # others) \<longrightarrow>
    contacts_update H s cid
      [(''firstname'', firstName c), (''lastname'', lastName c), (''phone'', phone c)] = Inr s' \<longrightarrow>
    createOrUpdateContact H s c =
      (Inr \<lparr> contactId = cid, updated = True, created = False \<rparr>, s',
       [DoSearch ''email'' ''EQ'' (email c) 1,
        Update cid [(''firstname'', firstName c), (''lastname'', lastName c),
                    (''phone'', phone c)]])) \<and>
   (contacts_doSearch H s ''email'' ''EQ'' (email c) 1 = Inr [] \<longrightarrow>
    contacts_create H s
      [(''email'', email c), (''firstname'', firstName c), (''lastname'', lastName c),
       (''phone'', phone c)] = Inr (newId, s'') \<longrightarrow>
    createOrUpdateContact H s c =
      (Inr \<lparr> contactId = newId, updated = False, created = True \<rparr>, s'',
       [DoSearch ''email'' ''EQ'' (email c) 1,
        Create [(''email'', email c), (''firstname'', firstName c), (''lastname'', lastName c),
                (''phone'', phone c)]]))"
proof (intro conjI impI)
  show "\<exists>more. snd (snd (createOrUpdateContact H s c)) =
          DoSearch ''email'' ''EQ'' (email c) 1 # more"
    by (simp add: createOrUpdateContact_def Let_def split: sum.splits list.splits prod.splits)
next
  assume "contacts_doSearch H s ''email'' ''EQ'' (email c) 1 = Inr (cid # others)"
    and "contacts_update H s cid
      [(''firstname'', firstName c), (''lastname'', lastName c), (''phone'', phone c)] = Inr s'"
  then show "createOrUpdateContact H s c =
      (Inr \<lparr> contactId = cid, updated = True, created = False \<rparr>, s',
       [DoSearch ''email'' ''EQ'' (email c) 1,
        Update cid [(''firstname'', firstName c), (''lastname'', lastName c),
                    (''phone'', phone c)]])"
    by (simp add: createOrUpdateContact_def Let_def)
next
  assume "contacts_doSearch H s ''email'' ''EQ'' (email c) 1 = Inr []"
    and "contacts_create H s
      [(''email'', email c), (''firstname'', firstName c), (''lastname'', lastName c),
       (''phone'', phone c)] = Inr (newId, s'')"
  then show "createOrUpdateContact H s c =
      (Inr \<lparr> contactId = newId, updated = False, created = True \<rparr>, s'',
       [DoSearch ''email'' ''EQ'' (email c) 1,
        Create [(''email'', email c), (''firstname'', firstName c), (''lastname'', lastName c),
                (''phone'', phone c)]])"
    by (simp add: createOrUpdateContact_def Let_def)
qed

text \<open>
  On the CRM in memory that holds Ada: syncing Ada again updates her contact, syncing
  Grace creates the second contact.
\<close>

theorem createOrUpdateContact_dedup_witness:
  "createOrUpdateContact memory_hubspot sample_crm
     \<lparr> email = JStr ''ada@example.com'', firstName = JStr ''Ada'', lastName = JStr ''King'',
       phone = JStr ''555-0101'', propertyInterest = JStr [] \<rparr> =
     (Inr \<lparr> contactId = ''contact-'', updated = True, created = False \<rparr>,
      [(''contact-'', [(''firstname'', JStr ''Ada''), (''lastname'', JStr ''King''),
                       (''phone'', JStr ''555-0101''),
                       (''email'', JStr ''ada@example.com''), (''firstname'', JStr ''Ada''),
                       (''lastname'', JStr ''Lovelace''), (''phone'', JStr ''555-0100'')])],
      [DoSearch ''email'' ''EQ'' (JStr ''ada@example.com'') 1,
       Update ''contact-'' [(''firstname'', JStr ''Ada''), (''lastname'', JStr ''King''),
                            (''phone'', JStr ''555-0101'')]]) \<and>
   createOrUpdateContact memory_hubspot sample_crm
     \<lparr> email = JStr ''grace@example.com'', firstName = JStr ''Grace'', lastName = JStr ''Hopper'',
       phone = JStr ''555-0102'', propertyInterest = JStr [] \<rparr> =
     (Inr \<lparr> contactId = ''contact-I'', updated = False, created = True \<rparr>,
      sample_crm @
      [(''contact-I'', [(''email'', JStr ''grace@example.com''), (''firstname'', JStr ''Grace''),
                        (''lastname'', JStr ''Hopper''), (''phone'', JStr ''555-0102'')])],
      [DoSearch ''email'' ''EQ'' (JStr ''grace@example.com'') 1,
       Create [(''email'', JStr ''grace@example.com''), (''firstname'', JStr ''Grace''),
               (''lastname'', JStr ''Hopper''), (''phone'', JStr ''555-0102'')]])"
proof -
  let ?ada = "\<lparr> email = JStr ''ada@example.com'', firstName = JStr ''Ada'',
                 lastName = JStr ''King'', phone = JStr ''555-0101'',
                 propertyInterest = JStr [] \<rparr>"
  let ?grace = "\<lparr> email = JStr ''grace@example.com'', firstName = JStr ''Grace'',
                   lastName = JStr ''Hopper'', phone = JStr ''555-0102'',
                   propertyInterest = JStr [] \<rparr>"
  have a1: "contacts_doSearch memory_hubspot sample_crm ''email'' ''EQ'' (email ?ada) 1 =
              Inr (''contact-'' # [])"
    by (simp add: memory_hubspot_def sample_crm_def)
  have a2: "contacts_update memory_hubspot sample_crm ''contact-''
              [(''firstname'', firstName ?ada), (''lastname'', lastName ?ada),
               (''phone'', phone ?ada)] =
            Inr [(''contact-'', [(''firstname'', JStr ''Ada''), (''lastname'', JStr ''King''),
                       (''phone'', JStr ''555-0101''),
                       (''email'', JStr ''ada@example.com''), (''firstname'', JStr ''Ada''),
                       (''lastname'', JStr ''Lovelace''), (''phone'', JStr ''555-0100'')])]"
    by (simp add: memory_hubspot_def sample_crm_def)
  have g1: "contacts_doSearch memory_hubspot sample_crm ''email'' ''EQ'' (email ?grace) 1 = Inr []"
    by (simp add: memory_hubspot_def sample_crm_def)
  have g2: "contacts_create memory_hubspot sample_crm
              [(''email'', email ?grace), (''firstname'', firstName ?grace),
               (''lastname'', lastName ?grace), (''phone'', phone ?grace)] =
            Inr (''contact-I'', sample_crm @
                 [(''contact-I'', [(''email'', JStr ''grace@example.com''),
                                   (''firstname'', JStr ''Grace''),
                                   (''lastname'', JStr ''Hopper''),
                                   (''phone'', JStr ''555-0102'')])])"
    by (simp add: memory_hubspot_def sample_crm_def)
  from createOrUpdateContact_dedup [THEN conjunct2, THEN conjunct1, rule_format, OF a1 a2]
       createOrUpdateContact_dedup [THEN conjunct2, THEN conjunct2, rule_format, OF g1 g2]
  show ?thesis by simp
qed

section \<open>Scheduling: validation and the CRM step\<close>

lemma truthy_getp_opt: "truthy (getp_opt p k) \<Longrightarrow> truthy p"
  by (cases p) (auto simp: getp_opt_def split: if_splits)

lemma find_SomeD: "find P xs = Some x \<Longrightarrow> P x \<and> x \<in> set xs"
  by (induction xs) (auto split: if_splits)

lemma scheduleViewing_validated:
  assumes "truthy (getp_opt params ''propertyId'')"
    and "truthy (getp_opt params ''datetime'')"
    and "truthy (getp_opt params ''clientName'')"
    and "truthy (getp_opt params ''clientPhone'')"
    and "find (\<lambda>p. JStr (id_p p) = getp_opt params ''propertyId'') store = Some property"
  shows "scheduleViewing E H store s params =
     (case validate_datetime E (getp_opt params ''datetime'') of
        Inl e \<Rightarrow> (Inl e, store, s, [])
      | Inr parsedDate \<Rightarrow>
          (Inr \<lparr> v_success = True,
                 v_message = ''Viewing scheduled successfully'',
                 confirmationNumber = ''VIEW-'' @ slice_last 6 (dec_int (Date_now E)),
                 scheduledTime = getp_opt params ''datetime'',
                 propertyDetails_id = id_p property,
                 propertyDetails_address = address property \<rparr>,
           store, fst (viewing_contact_sync H s params property),
           snd (viewing_contact_sync H s params property)))"
proof -
  have "truthy params" using assms(1) by (rule truthy_getp_opt)
  with assms show ?thesis
    by (simp add: scheduleViewing_def Let_def split: sum.splits)
qed

lemma validate_datetime_rejected:
  "date_rejected E dt \<Longrightarrow> \<exists>m. validate_datetime E dt = Inl (Error m)"
  by (auto simp: date_rejected_def validate_datetime_def split: option.splits)

lemma validate_datetime_accepted:
  "\<not> date_rejected E dt \<Longrightarrow> \<exists>t. validate_datetime E dt = Inr t"
  by (auto simp: date_rejected_def validate_datetime_def split: option.splits)

lemma dec_nat_sample: "dec_nat 1793620800123 = ''1793620800123''"
  by (simp add: dec_nat.simps)

lemma find_prop3:
  "find (\<lambda>p. JStr (id_p p) = JStr ''prop3'') mockProperties =
   Some \<lparr> id_p = ''prop3'', address = ''789 Congress Ave, Austin, Texas'', price = 950000,
          bedrooms = 3, propertyType = ''Single Family Home'',
          description = ''Spacious family home close to downtown Austin'' \<rparr>"
  by (simp add: mockProperties_def)

text \<open>
  Claim C5. A failure of the HubSpot call does not fail the scheduling. For every
  viewing request that passes the validation (the four required fields pass the presence
  check, the property id is one of the mock list, the datetime parses, is not before the
  current time and falls on an hour from 9 to 16), \<open>scheduleViewing\<close> answers with the
  success response and its confirmation number, whatever the CRM client does, so also
  when \<open>createOrUpdateContact\<close> throws.
\<close>

theorem scheduleViewing_survives_hubspot_failure:
  assumes "find (\<lambda>p. JStr (id_p p) = getp_opt params ''propertyId'') mockProperties = Some property"
    and "truthy (getp_opt params ''datetime'')"
    and "Date_parse E (getp_opt params ''datetime'') = Some t"
    and "now E \<le> t" and "9 \<le> getHours E t" and "getHours E t < 17"
    and "truthy (getp_opt params ''clientName'')"
    and "truthy (getp_opt params ''clientPhone'')"
  shows "fst (scheduleViewing E H mockProperties s params) =
     Inr \<lparr> v_success = True,
            v_message = ''Viewing scheduled successfully'',
            confirmationNumber = ''VIEW-'' @ slice_last 6 (dec_int (Date_now E)),
            scheduledTime = getp_opt params ''datetime'',
            propertyDetails_id = id_p property,
            propertyDetails_address = address property \<rparr>"
proof -
  obtain q where q: "q \<in> set mockProperties" "JStr (id_p q) = getp_opt params ''propertyId''"
    using find_SomeD [OF assms(1)] by auto
  have "id_p q \<noteq> []" using q(1) by (auto simp: mockProperties_def)
  then have pid: "truthy (getp_opt params ''propertyId'')" using q(2) by (metis truthy.simps(6))
  have "validate_datetime E (getp_opt params ''datetime'') = Inr t"
    using assms(3-6) by (simp add: validate_datetime_def)
  then show ?thesis
    using scheduleViewing_validated [OF pid assms(2) assms(7) assms(8) assms(1), of E H s]
    by simp
qed

text \<open>
  With the CRM down: the contact call of the request throws, the viewing is confirmed.
\<close>

theorem scheduleViewing_survives_hubspot_failure_witness:
  "fst (createOrUpdateContact down_hubspot ()
          \<lparr> email = JStr ''ada@example.com'', firstName = JStr ''Ada'',
            lastName = JStr ''Lovelace'', phone = JStr ''555-0100'',
            propertyInterest = JStr ''789 Congress Ave, Austin, Texas'' \<rparr>) =
     Inl (Error ''HubSpot unavailable'') \<and>
   scheduleViewing sample_env down_hubspot mockProperties ()
     (JObj [(''propertyId'', JStr ''prop3''), (''datetime'', JStr ''2030-06-03T10:00:00Z''),
            (''clientName'', JStr ''Ada Lovelace''), (''clientPhone'', JStr ''555-0100''),
            (''clientEmail'', JStr ''ada@example.com'')]) =
     (Inr \<lparr> v_success = True,
            v_message = ''Viewing scheduled successfully'',
            confirmationNumber = ''VIEW-800123'',
            scheduledTime = JStr ''2030-06-03T10:00:00Z'',
            propertyDetails_id = ''prop3'',
            propertyDetails_address = ''789 Congress Ave, Austin, Texas'' \<rparr>,
      mockProperties, (),
      [DoSearch ''email'' ''EQ'' (JStr ''ada@example.com'') 1])"
proof -
  let ?params = "JObj [(''propertyId'', JStr ''prop3''), (''datetime'', JStr ''2030-06-03T10:00:00Z''),
            (''clientName'', JStr ''Ada Lovelace''), (''clientPhone'', JStr ''555-0100''),
            (''clientEmail'', JStr ''ada@example.com'')]"
  let ?prop3 = "\<lparr> id_p = ''prop3'', address = ''789 Congress Ave, Austin, Texas'', price = 950000,
          bedrooms = 3, propertyType = ''Single Family Home'',
          description = ''Spacious family home close to downtown Austin'' \<rparr>"
  have known: "find (\<lambda>p. JStr (id_p p) = getp_opt ?params ''propertyId'') mockProperties = Some ?prop3"
    using find_prop3 by (simp add: getp_opt_def)
  have dt: "truthy (getp_opt ?params ''datetime'')" by (simp add: getp_opt_def)
  have parsed: "Date_parse sample_env (getp_opt ?params ''datetime'') = Some 1906711200000"
    by (simp add: getp_opt_def sample_env_def)
  have future: "now sample_env \<le> 1906711200000" by (simp add: sample_env_def)
  have h1: "9 \<le> getHours sample_env 1906711200000" by (simp add: sample_env_def)
  have h2: "getHours sample_env 1906711200000 < 17" by (simp add: sample_env_def)
  have name: "truthy (getp_opt ?params ''clientName'')" by (simp add: getp_opt_def)
  have phone: "truthy (getp_opt ?params ''clientPhone'')" by (simp add: getp_opt_def)
  have conf: "''VIEW-'' @ slice_last 6 (dec_int (Date_now sample_env)) = ''VIEW-800123''"
    by (simp add: sample_env_def dec_int_def dec_nat_sample slice_last_def)
  have answer: "fst (scheduleViewing sample_env down_hubspot mockProperties () ?params) =
     Inr \<lparr> v_success = True,
            v_message = ''Viewing scheduled successfully'',
            confirmationNumber = ''VIEW-800123'',
            scheduledTime = JStr ''2030-06-03T10:00:00Z'',
            propertyDetails_id = ''prop3'',
            propertyDetails_address = ''789 Congress Ave, Austin, Texas'' \<rparr>"
    using scheduleViewing_survives_hubspot_failure
            [OF known dt parsed future h1 h2 name phone, of down_hubspot "()"] conf
    by (simp add: getp_opt_def)
  have store: "fst (snd (scheduleViewing sample_env down_hubspot mockProperties () ?params)) =
               mockProperties"
    by (rule scheduleViewing_store)
  have pid: "truthy (getp_opt ?params ''propertyId'')" by (simp add: getp_opt_def)
  have calls: "snd (snd (snd (scheduleViewing sample_env down_hubspot mockProperties () ?params))) =
               [DoSearch ''email'' ''EQ'' (JStr ''ada@example.com'') 1]"
    unfolding scheduleViewing_validated [OF pid dt name phone known]
    by (simp add: validate_datetime_def sample_env_def getp_opt_def viewing_contact_sync_def
          js_split_space_def createOrUpdateContact_def down_hubspot_def Let_def)
  have failed: "fst (createOrUpdateContact down_hubspot ()
          \<lparr> email = JStr ''ada@example.com'', firstName = JStr ''Ada'',
            lastName = JStr ''Lovelace'', phone = JStr ''555-0100'',
            propertyInterest = JStr ''789 Congress Ave, Austin, Texas'' \<rparr>) =
     Inl (Error ''HubSpot unavailable'')"
    by (simp add: createOrUpdateContact_def down_hubspot_def Let_def)
  show ?thesis
    using answer store calls failed
    by (cases "scheduleViewing sample_env down_hubspot mockProperties () ?params") simp
qed

text \<open>
  Claim C9. The date rule of \<open>scheduleViewing\<close>. For every viewing request whose four
  required fields pass the presence check and whose property id is one of the mock list:
  when the datetime does not parse to a valid date, or the parsed date is earlier than
  the current time, or the parsed hour is before 9 or at or after 17, the call throws an
  \<open>Error\<close>; when none of these holds, it answers with a success response.
\<close>

theorem scheduleViewing_date_rule:
  assumes "truthy (getp_opt params ''propertyId'')"
    and "truthy (getp_opt params ''datetime'')"
    and "truthy (getp_opt params ''clientName'')"
    and "truthy (getp_opt params ''clientPhone'')"
    and "find (\<lambda>p. JStr (id_p p) = getp_opt params ''propertyId'') mockProperties = Some property"
  shows "(date_rejected E (getp_opt params ''datetime'') \<longrightarrow>
            (\<exists>m. fst (scheduleViewing E H mockProperties s params) = Inl (Error m))) \<and>
         (\<not> date_rejected E (getp_opt params ''datetime'') \<longrightarrow>
            (\<exists>r. fst (scheduleViewing E H mockProperties s params) = Inr r \<and> v_success r))"
proof (intro conjI impI)
  assume "date_rejected E (getp_opt params ''datetime'')"
  then obtain m where "validate_datetime E (getp_opt params ''datetime'') = Inl (Error m)"
    using validate_datetime_rejected by blast
  then show "\<exists>m. fst (scheduleViewing E H mockProperties s params) = Inl (Error m)"
    by (simp add: scheduleViewing_validated [OF assms])
next
  assume "\<not> date_rejected E (getp_opt params ''datetime'')"
  then obtain t where "validate_datetime E (getp_opt params ''datetime'') = Inr t"
    using validate_datetime_accepted by blast
  then show "\<exists>r. fst (scheduleViewing E H mockProperties s params) = Inr r \<and> v_success r"
    by (simp add: scheduleViewing_validated [OF assms])
qed

text \<open>
  Three requests for prop3 under the sample clock: at 20:00 and in 2020 the call throws,
  at 10:00 on a day to come it succeeds.
\<close>

theorem scheduleViewing_date_rule_witness:
  "date_rejected sample_env (JStr ''2030-06-03T20:00:00Z'') \<and>
   isl (fst (scheduleViewing sample_env down_hubspot mockProperties ()
     (JObj [(''propertyId'', JStr ''prop3''), (''datetime'', JStr ''2030-06-03T20:00:00Z''),
            (''clientName'', JStr ''Ada Lovelace''), (''clientPhone'', JStr ''555-0100'')]))) \<and>
   date_rejected sample_env (JStr ''2020-06-03T10:00:00Z'') \<and>
   isl (fst (scheduleViewing sample_env down_hubspot mockProperties ()
     (JObj [(''propertyId'', JStr ''prop3''), (''datetime'', JStr ''2020-06-03T10:00:00Z''),
            (''clientName'', JStr ''Ada Lovelace''), (''clientPhone'', JStr ''555-0100'')]))) \<and>
   \<not> date_rejected sample_env (JStr ''2030-06-03T10:00:00Z'') \<and>
   \<not> isl (fst (scheduleViewing sample_env down_hubspot mockProperties ()
     (JObj [(''propertyId'', JStr ''prop3''), (''datetime'', JStr ''2030-06-03T10:00:00Z''),
            (''clientName'', JStr ''Ada Lovelace''), (''clientPhone'', JStr ''555-0100'')])))"
proof -
  let ?req = "\<lambda>d. JObj [(''propertyId'', JStr ''prop3''), (''datetime'', JStr d),
            (''clientName'', JStr ''Ada Lovelace''), (''clientPhone'', JStr ''555-0100'')]"
  let ?prop3 = "\<lparr> id_p = ''prop3'', address = ''789 Congress Ave, Austin, Texas'', price = 950000,
          bedrooms = 3, propertyType = ''Single Family Home'',
          description = ''Spacious family home close to downtown Austin'' \<rparr>"
  have rule: "(date_rejected sample_env (JStr d) \<longrightarrow>
            (\<exists>m. fst (scheduleViewing sample_env down_hubspot mockProperties () (?req d)) =
                    Inl (Error m))) \<and>
         (\<not> date_rejected sample_env (JStr d) \<longrightarrow>
            (\<exists>r. fst (scheduleViewing sample_env down_hubspot mockProperties () (?req d)) = Inr r
                  \<and> v_success r))"
    if "d \<noteq> []" for d
  proof -
    have f: "find (\<lambda>p. JStr (id_p p) = getp_opt (?req d) ''propertyId'') mockProperties = Some ?prop3"
      using find_prop3 by (simp add: getp_opt_def)
    show ?thesis
      using scheduleViewing_date_rule [of "?req d" ?prop3 sample_env down_hubspot "()"] f that
      by (simp add: getp_opt_def)
  qed
  have late: "date_rejected sample_env (JStr ''2030-06-03T20:00:00Z'')"
    by (simp add: date_rejected_def sample_env_def)
  have past: "date_rejected sample_env (JStr ''2020-06-03T10:00:00Z'')"
    by (simp add: date_rejected_def sample_env_def)
  have good: "\<not> date_rejected sample_env (JStr ''2030-06-03T10:00:00Z'')"
    by (simp add: date_rejected_def sample_env_def)
  from rule [of "''2030-06-03T20:00:00Z''"] late
  have 1: "isl (fst (scheduleViewing sample_env down_hubspot mockProperties ()
                  (?req ''2030-06-03T20:00:00Z'')))"
    by auto
  from rule [of "''2020-06-03T10:00:00Z''"] past
  have 2: "isl (fst (scheduleViewing sample_env down_hubspot mockProperties ()
                  (?req ''2020-06-03T10:00:00Z'')))"
    by auto
  from rule [of "''2030-06-03T10:00:00Z''"] good
  have 3: "\<not> isl (fst (scheduleViewing sample_env down_hubspot mockProperties ()
                  (?req ''2030-06-03T10:00:00Z'')))"
    by auto
  from late past good 1 2 3 show ?thesis by simp
qed

section \<open>Missing required fields\<close>

lemma scheduleViewing_first_missing:
  assumes "find (\<lambda>f. \<not> truthy (getp_opt (JObj kvs) (fst f))) required_fields = Some (k, m)"
  shows "scheduleViewing E H store s (JObj kvs) = (Inl (Error m), store, s, [])"
  using assms
  by (simp add: required_fields_def scheduleViewing_def split: if_splits)

text \<open>
  Claim C6, as stated, fails on the sync-contact route: a request of the nested shape
  whose tool call has neither an id nor an email is turned away for the missing id, with
  \<open>{ error: 'Missing toolCallId in request' }\<close>, before the email is looked at.
\<close>

theorem email_required_counterexample:
  "sync_extract sample_env
     (JObj [(''message'',
             JObj [(''toolCalls'',
                    JArr [JObj [(''function'',
                                 JObj [(''arguments'', JObj [(''firstName'', JStr ''Ada'')])])]])])]) =
     Inr (JUndefined, JObj [(''firstName'', JStr ''Ada'')]) \<and>
   getp (JObj [(''firstName'', JStr ''Ada'')]) ''email'' = Inr JUndefined \<and>
   sync_contact_route sample_env down_hubspot ()
     \<lparr> headers = [],
       body = JObj [(''message'',
             JObj [(''toolCalls'',
                    JArr [JObj [(''function'',
                                 JObj [(''arguments'', JObj [(''firstName'', JStr ''Ada'')])])]])])] \<rparr> =
     (\<lparr> status = 400, json = JObj [(''error'', JStr ''Missing toolCallId in request'')] \<rparr>, (), [])"
  by (simp add: sync_contact_route_def sync_extract_def nested_shape_def nested_toolCall_def
        bind_e_def getp_opt_def gt_zero_def ToNumber_def parse_args_def missing_toolCallId_def
        Let_def)

text \<open>
  Claim C6, amended. For every viewing-parameter object in which one of the required
  fields \<open>propertyId\<close>, \<open>datetime\<close>, \<open>clientName\<close>, \<open>clientPhone\<close> is absent,
  \<open>scheduleViewing\<close> throws the error that names the first required field failing the
  presence check, and schedules nothing and calls HubSpot not at all. For every
  sync-contact request whose extracted tool-call id passes the missing-id check and
  whose extracted parameters are a value without an email, the route answers 400 with
  \<open>success: false\<close> and \<open>error: 'Email is required'\<close> under that id, without calling
  HubSpot.
\<close>

theorem required_fields_checked:
  "((k, m) \<in> set required_fields \<and> map_of kvs k = None \<longrightarrow>
      (\<exists>k' m'. find (\<lambda>f. \<not> truthy (getp_opt (JObj kvs) (fst f))) required_fields = Some (k', m') \<and>
               scheduleViewing E H store s (JObj kvs) = (Inl (Error m'), store, s, []))) \<and>
   (sync_extract E (body req) = Inr (toolCallId, contactParams) \<and> truthy toolCallId \<and>
    getp contactParams ''email'' = Inr em \<and> \<not> truthy em \<longrightarrow>
      sync_contact_route E H s' req =
        (\<lparr> status = 400,
           json = envelope toolCallId
                    (JObj [(''success'', JBool False), (''error'', JStr ''Email is required'')]) \<rparr>,
         s', []))"
proof (intro conjI impI)
  assume a: "(k, m) \<in> set required_fields \<and> map_of kvs k = None"
  then have "\<not> truthy (getp_opt (JObj kvs) (fst (k, m)))" by (simp add: getp_opt_def)
  with a have "find (\<lambda>f. \<not> truthy (getp_opt (JObj kvs) (fst f))) required_fields \<noteq> None"
    unfolding find_None_iff by blast
  then obtain k' m' where
    f: "find (\<lambda>f. \<not> truthy (getp_opt (JObj kvs) (fst f))) required_fields = Some (k', m')"
    by auto
  from scheduleViewing_first_missing [OF f, of E H store s] f
  show "\<exists>k' m'. find (\<lambda>f. \<not> truthy (getp_opt (JObj kvs) (fst f))) required_fields = Some (k', m') \<and>
               scheduleViewing E H store s (JObj kvs) = (Inl (Error m'), store, s, [])"
    by (intro exI conjI)
next
  assume "sync_extract E (body req) = Inr (toolCallId, contactParams) \<and> truthy toolCallId \<and>
    getp contactParams ''email'' = Inr em \<and> \<not> truthy em"
  then show "sync_contact_route E H s' req =
        (\<lparr> status = 400,
           json = envelope toolCallId
                    (JObj [(''success'', JBool False), (''error'', JStr ''Email is required'')]) \<rparr>,
         s', [])"
    by (simp add: sync_contact_route_def Let_def)
qed

text \<open>
  A viewing without a client name, and a sync request of the flat shape without an email.
\<close>

theorem required_fields_checked_witness:
  "scheduleViewing sample_env memory_hubspot mockProperties sample_crm
     (JObj [(''propertyId'', JStr ''prop3''), (''datetime'', JStr ''2030-06-03T10:00:00Z''),
            (''clientPhone'', JStr ''555-0100'')]) =
     (Inl (Error ''Client name is required''), mockProperties, sample_crm, []) \<and>
   sync_contact_route sample_env memory_hubspot sample_crm
     \<lparr> headers = [],
       body = flat_request (JStr ''call_1'') (JObj [(''firstName'', JStr ''Ada'')]) \<rparr> =
     (\<lparr> status = 400,
        json = envelope (JStr ''call_1'')
                 (JObj [(''success'', JBool False), (''error'', JStr ''Email is required'')]) \<rparr>,
      sample_crm, [])"
proof -
  let ?kvs = "[(''propertyId'', JStr ''prop3''), (''datetime'', JStr ''2030-06-03T10:00:00Z''),
            (''clientPhone'', JStr ''555-0100'')]"
  let ?req = "\<lparr> headers = [],
       body = flat_request (JStr ''call_1'') (JObj [(''firstName'', JStr ''Ada'')]) \<rparr>"
  have a: "(''clientName'', ''Client name is required'') \<in> set required_fields \<and>
           map_of ?kvs ''clientName'' = None"
    by (simp add: required_fields_def)
  have f: "find (\<lambda>f. \<not> truthy (getp_opt (JObj ?kvs) (fst f))) required_fields =
           Some (''clientName'', ''Client name is required'')"
    by (simp add: required_fields_def getp_opt_def)
  have b: "sync_extract sample_env (body ?req) =
             Inr (JStr ''call_1'', JObj [(''firstName'', JStr ''Ada'')]) \<and>
           truthy (JStr ''call_1'') \<and>
           getp (JObj [(''firstName'', JStr ''Ada'')]) ''email'' = Inr JUndefined \<and>
           \<not> truthy JUndefined"
    by (simp add: sync_extract_def nested_shape_def flat_shape_def flat_request_def bind_e_def
          getp_opt_def)
  from required_fields_checked [THEN conjunct1, rule_format, OF a,
         of sample_env memory_hubspot mockProperties sample_crm] f
       required_fields_checked [THEN conjunct2, rule_format, OF b, of memory_hubspot sample_crm]
  show ?thesis by simp
qed

section \<open>Where the missing-id answer can come from\<close>

lemma truthy_or_unknown: "truthy (js_or v (JStr ''unknown''))"
  by (simp add: js_or_def)

lemma nested_toolCall_id:
  "nested_toolCall b = Inr (t, a) \<Longrightarrow>
   t = getp_opt (index0_opt (getp_opt (getp_opt b ''message'') ''toolCalls'')) ''id''"
  by (auto simp: nested_toolCall_def bind_e_def getp_opt_def index0_opt_def split: sum.splits)

lemma schedule_extract_falsy_id:
  assumes "schedule_extract E b = Inr (t, p)" and "\<not> truthy t"
  shows "nested_shape E b = Inr True \<and>
         \<not> truthy (getp_opt (index0_opt (getp_opt (getp_opt b ''message'') ''toolCalls'')) ''id'')"
proof (cases "nested_shape E b")
  case (Inl e)
  with assms(1) show ?thesis by (simp add: schedule_extract_def bind_e_def)
next
  case (Inr n)
  show ?thesis
  proof (cases n)
    case True
    with Inr assms(1) obtain a where "nested_toolCall b = Inr (t, a)"
      by (auto simp: schedule_extract_def bind_e_def split: sum.splits)
    from nested_toolCall_id [OF this] assms(2) Inr True show ?thesis by simp
  next
    case False
    with Inr assms show ?thesis
      by (auto simp: schedule_extract_def bind_e_def flat_shape_def truthy_or_unknown
            split: if_splits)
  qed
qed

lemma sync_extract_falsy_id:
  assumes "sync_extract E b = Inr (t, p)" and "\<not> truthy t"
  shows "nested_shape E b = Inr True \<and>
         \<not> truthy (getp_opt (index0_opt (getp_opt (getp_opt b ''message'') ''toolCalls'')) ''id'')"
proof (cases "nested_shape E b")
  case (Inl e)
  with assms(1) show ?thesis by (simp add: sync_extract_def bind_e_def)
next
  case (Inr n)
  show ?thesis
  proof (cases n)
    case True
    with Inr assms(1) obtain a where "nested_toolCall b = Inr (t, a)"
      by (auto simp: sync_extract_def bind_e_def split: sum.splits)
    from nested_toolCall_id [OF this] assms(2) Inr True show ?thesis by simp
  next
    case False
    with Inr assms show ?thesis
      by (auto simp: sync_extract_def bind_e_def flat_shape_def truthy_or_unknown
            split: if_splits)
  qed
qed

lemma schedule_route_missing:
  assumes "fst (schedule_viewing_route E H store s req) = missing_toolCallId"
  shows "\<exists>t p. schedule_extract E (body req) = Inr (t, p) \<and> \<not> truthy t"
proof (cases "schedule_extract E (body req)")
  case (Inl e)
  with assms show ?thesis by (simp add: schedule_viewing_route_def missing_toolCallId_def)
next
  case (Inr x)
  obtain t p where x: "x = (t, p)" by (cases x) auto
  obtain r rest where sv: "scheduleViewing E H store s p = (r, rest)"
    by (cases "scheduleViewing E H store s p") auto
  have "\<not> truthy t"
  proof
    assume "truthy t"
    with Inr x sv assms show False
      by (cases r) (simp_all add: schedule_viewing_route_def missing_toolCallId_def)
  qed
  with Inr x show ?thesis by simp
qed

lemma sync_route_missing:
  assumes "fst (sync_contact_route E H s req) = missing_toolCallId"
  shows "\<exists>t p. sync_extract E (body req) = Inr (t, p) \<and> \<not> truthy t"
proof (cases "sync_extract E (body req)")
  case (Inl e)
  with assms show ?thesis by (simp add: sync_contact_route_def Let_def missing_toolCallId_def)
next
  case (Inr x)
  obtain t p where x: "x = (t, p)" by (cases x) auto
  have "\<not> truthy t"
  proof
    assume t: "truthy t"
    show False
    proof (cases "getp p ''email''")
      case (Inl e)
      with Inr x t assms show False
        by (simp add: sync_contact_route_def Let_def missing_toolCallId_def)
    next
      case em: (Inr em)
      obtain r s' calls where c: "createOrUpdateContact H s
          \<lparr> email = em, firstName = js_or (getp_opt p ''firstName'') (JStr []),
            lastName = js_or (getp_opt p ''lastName'') (JStr []),
            phone = js_or (getp_opt p ''phone'') (JStr []),
            propertyInterest = js_or (getp_opt p ''propertyInterest'') (JStr []) \<rparr> = (r, s', calls)"
        by (metis prod_cases3)
      with Inr x t em assms show False
        by (cases r)
           (simp_all add: sync_contact_route_def Let_def missing_toolCallId_def envelope_def
              split: if_splits)
    qed
  qed
  with Inr x show ?thesis by simp
qed

text \<open>
  Claim C10. In the schedule-viewing and sync-contact routes a request that matches
  neither the nested nor the flat shape goes on with the tool-call id
  \<open>req.body.toolCallId || 'unknown'\<close>, which always passes the missing-id check, so the
  answer 400 \<open>Missing toolCallId in request\<close> never comes from that branch. Whenever
  one of the two routes gives that answer, the request has the nested shape and the
  \<open>id\<close> of \<open>message.toolCalls[0]\<close> is missing (it fails the check \<open>!toolCallId\<close>).
\<close>

theorem missing_toolCallId_only_nested:
  "(nested_shape E (body req) = Inr False \<and> \<not> flat_shape (body req) \<longrightarrow>
      schedule_extract E (body req) =
        Inr (js_or (getp_opt (body req) ''toolCallId'') (JStr ''unknown''), body req) \<and>
      (\<exists>contactParams. sync_extract E (body req) =
        Inr (js_or (getp_opt (body req) ''toolCallId'') (JStr ''unknown''), contactParams)) \<and>
      truthy (js_or (getp_opt (body req) ''toolCallId'') (JStr ''unknown'')) \<and>
      fst (schedule_viewing_route E H store s req) \<noteq> missing_toolCallId \<and>
      fst (sync_contact_route E H s req) \<noteq> missing_toolCallId) \<and>
   (fst (schedule_viewing_route E H store s req) = missing_toolCallId \<or>
    fst (sync_contact_route E H s req) = missing_toolCallId \<longrightarrow>
      nested_shape E (body req) = Inr True \<and>
      \<not> truthy (getp_opt (index0_opt (getp_opt (getp_opt (body req) ''message'') ''toolCalls''))
                  ''id''))"
proof -
  have only_nested: "nested_shape E (body req) = Inr True \<and>
      \<not> truthy (getp_opt (index0_opt (getp_opt (getp_opt (body req) ''message'') ''toolCalls''))
                  ''id'')"
    if "fst (schedule_viewing_route E H store s req) = missing_toolCallId \<or>
        fst (sync_contact_route E H s req) = missing_toolCallId"
    using that schedule_route_missing [of E H store s req] sync_route_missing [of E H s req]
      schedule_extract_falsy_id [of E "body req"] sync_extract_falsy_id [of E "body req"]
    by blast
  have fallback_ok: "schedule_extract E (body req) =
        Inr (js_or (getp_opt (body req) ''toolCallId'') (JStr ''unknown''), body req) \<and>
      (\<exists>contactParams. sync_extract E (body req) =
        Inr (js_or (getp_opt (body req) ''toolCallId'') (JStr ''unknown''), contactParams)) \<and>
      truthy (js_or (getp_opt (body req) ''toolCallId'') (JStr ''unknown'')) \<and>
      fst (schedule_viewing_route E H store s req) \<noteq> missing_toolCallId \<and>
      fst (sync_contact_route E H s req) \<noteq> missing_toolCallId"
    if n: "nested_shape E (body req) = Inr False \<and> \<not> flat_shape (body req)"
  proof -
    have "fst (schedule_viewing_route E H store s req) \<noteq> missing_toolCallId"
      and "fst (sync_contact_route E H s req) \<noteq> missing_toolCallId"
      using only_nested n by auto
    with n show ?thesis
      by (simp add: schedule_extract_def sync_extract_def bind_e_def truthy_or_unknown)
  qed
  from only_nested fallback_ok show ?thesis by blast
qed

text \<open>
  A bare contact object is synced under the id \<open>unknown\<close>; a nested tool call without
  an id is turned away.
\<close>

theorem missing_toolCallId_only_nested_witness:
  "sync_extract sample_env (JObj [(''email'', JStr ''grace@example.com'')]) =
     Inr (JStr ''unknown'',
          JObj [(''email'', JStr ''grace@example.com''), (''firstName'', JUndefined),
                (''lastName'', JUndefined), (''phone'', JUndefined),
                (''propertyInterest'', JUndefined)]) \<and>
   fst (sync_contact_route sample_env memory_hubspot sample_crm
          \<lparr> headers = [], body = JObj [(''email'', JStr ''grace@example.com'')] \<rparr>) \<noteq>
     missing_toolCallId \<and>
   fst (schedule_viewing_route sample_env memory_hubspot mockProperties sample_crm
          \<lparr> headers = [],
            body = JObj [(''message'',
                          JObj [(''toolCalls'',
                                 JArr [JObj [(''function'',
                                              JObj [(''arguments'', JObj [])])]])])] \<rparr>) =
     missing_toolCallId \<and>
   nested_shape sample_env
     (JObj [(''message'',
             JObj [(''toolCalls'',
                    JArr [JObj [(''function'', JObj [(''arguments'', JObj [])])]])])]) = Inr True"
proof -
  let ?bare = "\<lparr> headers = [], body = JObj [(''email'', JStr ''grace@example.com'')] \<rparr>"
  let ?noid = "\<lparr> headers = [],
            body = JObj [(''message'',
                          JObj [(''toolCalls'',
                                 JArr [JObj [(''function'',
                                              JObj [(''arguments'', JObj [])])]])])] \<rparr>"
  have fallback: "nested_shape sample_env (body ?bare) = Inr False \<and> \<not> flat_shape (body ?bare)"
    by (simp add: nested_shape_def flat_shape_def bind_e_def getp_opt_def)
  have turned_away: "fst (schedule_viewing_route sample_env memory_hubspot mockProperties
                            sample_crm ?noid) = missing_toolCallId"
    by (simp add: schedule_viewing_route_def schedule_extract_def nested_shape_def
          nested_toolCall_def bind_e_def getp_opt_def gt_zero_def ToNumber_def parse_args_def)
  have extracted: "sync_extract sample_env (JObj [(''email'', JStr ''grace@example.com'')]) =
     Inr (JStr ''unknown'',
          JObj [(''email'', JStr ''grace@example.com''), (''firstName'', JUndefined),
                (''lastName'', JUndefined), (''phone'', JUndefined),
                (''propertyInterest'', JUndefined)])"
    by (simp add: sync_extract_def nested_shape_def flat_shape_def bind_e_def getp_opt_def
          js_or_def)
  from missing_toolCallId_only_nested
         [THEN conjunct1, rule_format, OF fallback, of memory_hubspot mockProperties sample_crm]
       missing_toolCallId_only_nested
         [THEN conjunct2, rule_format, OF disjI1, OF turned_away]
       turned_away extracted
  show ?thesis by simp
qed

section \<open>The mock search returns the matching subset\<close>

lemma filter_e_total: "(\<And>x. f x = Inr (g x)) \<Longrightarrow> filter_e f xs = Inr (filter g xs)"
  by (induction xs) simp_all

lemma starts_with_prefix: "starts_with s t \<longleftrightarrow> prefix t s"
  by (induction s t rule: starts_with.induct) auto

lemma str_includes_sublist: "str_includes s t \<longleftrightarrow> sublist t s"
proof (induction s)
  case Nil
  show ?case by simp
next
  case (Cons d ds)
  show ?case
  proof (cases t)
    case Nil
    then show ?thesis by simp
  next
    case (Cons c cs)
    with Cons.IH show ?thesis
      by (simp add: starts_with_prefix sublist_Cons_right del: starts_with.simps)
  qed
qed

lemma searchProperties_well_typed:
  assumes "well_typed_search p"
  shows "fst (searchProperties E store p) =
           Inr \<lparr> success = True, properties = filter (amended_match p) store \<rparr>"
proof -
  define pr where "pr = getp_opt p ''priceRange''"
  define b where "b = getp_opt p ''bedrooms''"
  define t where "t = getp_opt p ''propertyType''"
  define l where "l = getp_opt p ''location''"
  define P1 where "P1 = (\<lambda>prop::property. case (getp_opt pr ''min'', getp_opt pr ''max'') of
         (JNum lo, JNum hi) \<Rightarrow> lo \<le> price prop \<and> price prop \<le> hi
       | _ \<Rightarrow> True)"
  define P2 where "P2 = (\<lambda>prop::property. case b of JNum n \<Rightarrow> n = 0 \<or> bedrooms prop = n | _ \<Rightarrow> True)"
  define P3 where "P3 = (\<lambda>prop::property. case t of
         JStr ty \<Rightarrow> ty = [] \<or> toLowerCase (propertyType prop) = toLowerCase ty
       | _ \<Rightarrow> True)"
  define P4 where "P4 = (\<lambda>prop::property. case l of
         JStr lo \<Rightarrow> sublist (toLowerCase lo) (toLowerCase (address prop))
       | _ \<Rightarrow> True)"
  obtain kvs where p: "p = JObj kvs"
    using assms by (cases p) (simp_all add: well_typed_search_def)
  have wt: "(case pr of
             JUndefined \<Rightarrow> True
           | JObj r \<Rightarrow>
               (case (getp_opt (JObj r) ''min'', getp_opt (JObj r) ''max'') of
                  (JNum lo, JNum hi) \<Rightarrow> True
                | _ \<Rightarrow> False)
           | _ \<Rightarrow> False)"
      "(case b of JUndefined \<Rightarrow> True | JNum n \<Rightarrow> True | _ \<Rightarrow> False)"
      "(case t of JUndefined \<Rightarrow> True | JStr t \<Rightarrow> True | _ \<Rightarrow> False)"
      "(case l of JUndefined \<Rightarrow> True | JStr l \<Rightarrow> True | _ \<Rightarrow> False)"
    using assms unfolding p well_typed_search_def pr_def b_def t_def l_def by simp_all
  have or: "js_or p (JObj []) = p" using p by (simp add: js_or_def)
  have f1: "(if truthy pr \<and> getp_opt pr ''min'' \<noteq> JUndefined \<and> getp_opt pr ''max'' \<noteq> JUndefined
            then filter (\<lambda>prop. num_ge E (price prop) (getp_opt pr ''min'') \<and>
                                 num_le E (price prop) (getp_opt pr ''max'')) store
            else if truthy pr \<and> getp_opt pr ''max'' \<noteq> JUndefined
            then filter (\<lambda>prop. num_le E (price prop) (getp_opt pr ''max'')) store
            else store) = filter P1 store"
  proof (cases pr)
    case JUndefined
    then show ?thesis by (simp add: P1_def getp_opt_def)
  next
    case (JObj r)
    with wt(1) obtain lo hi where "getp_opt pr ''min'' = JNum lo" "getp_opt pr ''max'' = JNum hi"
      by (auto split: jsval.splits)
    with JObj show ?thesis by (simp add: P1_def num_ge_def num_le_def ToNumber_def)
  qed (use wt(1) in simp_all)
  have f2: "(if truthy b then filter (\<lambda>prop. JNum (bedrooms prop) = b) xs else xs) = filter P2 xs"
    for xs
  proof (cases b)
    case JUndefined
    then show ?thesis by (simp add: P2_def)
  next
    case (JNum n)
    then show ?thesis by (cases "n = 0") (simp_all add: P2_def)
  qed (use wt(2) in simp_all)
  have f3: "(if truthy t
            then filter_e (\<lambda>prop. bind_e (js_toLowerCase t)
                                   (\<lambda>ty. Inr (toLowerCase (propertyType prop) = ty))) xs
            else Inr xs) = Inr (filter P3 xs)"
    for xs
  proof (cases t)
    case JUndefined
    then show ?thesis by (simp add: P3_def)
  next
    case (JStr ty)
    show ?thesis
    proof (cases "ty = []")
      case True
      with JStr show ?thesis by (simp add: P3_def)
    next
      case False
      have "filter_e (\<lambda>prop. bind_e (js_toLowerCase t)
                                   (\<lambda>ty. Inr (toLowerCase (propertyType prop) = ty))) xs =
            Inr (filter (\<lambda>prop. toLowerCase (propertyType prop) = toLowerCase ty) xs)"
        by (rule filter_e_total) (simp add: JStr js_toLowerCase_def bind_e_def)
      with JStr False show ?thesis by (simp add: P3_def)
    qed
  qed (use wt(3) in simp_all)
  have f4: "(if truthy l
             then bind_e (js_toLowerCase l)
                    (\<lambda>locationLower.
                       Inr (filter (\<lambda>prop. str_includes (toLowerCase (address prop)) locationLower) xs))
             else Inr xs) = Inr (filter P4 xs)"
    for xs
  proof (cases l)
    case JUndefined
    then show ?thesis by (simp add: P4_def)
  next
    case (JStr lo)
    then show ?thesis
      by (cases "lo = []")
         (simp_all add: P4_def js_toLowerCase_def bind_e_def str_includes_sublist toLowerCase_def)
  qed (use wt(4) in simp_all)
  have am: "amended_match p = (\<lambda>prop. ((P1 prop \<and> P2 prop) \<and> P3 prop) \<and> P4 prop)"
    by (rule ext) (simp add: amended_match_def P1_def P2_def P3_def P4_def pr_def b_def t_def l_def)
  have "fst (searchProperties E store p) =
          Inr \<lparr> success = True,
                 properties = filter P4 (filter P3 (filter P2 (filter P1 store))) \<rparr>"
    unfolding searchProperties_def Let_def or fst_conv
      pr_def [symmetric] b_def [symmetric] t_def [symmetric] l_def [symmetric] f1 f2 f3
    by (simp add: bind_e_def f4)
  then show ?thesis by (simp add: am)
qed

text \<open>
  Claim C2, as stated, fails on a search for 0 bedrooms: no mock property has 0
  bedrooms, so the claimed result is empty, but the code takes the 0 for a filter that
  is not given and returns all five properties.
\<close>

theorem searchProperties_counterexample:
  "well_typed_search (JObj [(''bedrooms'', JNum 0)]) \<and>
   fst (searchProperties sample_env mockProperties (JObj [(''bedrooms'', JNum 0)])) =
     Inr \<lparr> success = True, properties = mockProperties \<rparr> \<and>
   filter (claimed_match (JObj [(''bedrooms'', JNum 0)])) mockProperties = [] \<and>
   mockProperties \<noteq> []"
proof -
  have "fst (searchProperties sample_env mockProperties (JObj [(''bedrooms'', JNum 0)])) =
     Inr \<lparr> success = True, properties = mockProperties \<rparr>"
    by (simp add: searchProperties_def js_or_def getp_opt_def bind_e_def Let_def)
  moreover have "filter (claimed_match (JObj [(''bedrooms'', JNum 0)])) mockProperties = []"
    by (simp add: claimed_match_def getp_opt_def mockProperties_def)
  moreover have "mockProperties \<noteq> []" by (simp add: mockProperties_def)
  ultimately show ?thesis by (simp add: well_typed_search_def getp_opt_def)
qed

text \<open>
  Claim C2, amended. For every search-parameter object of the type
  \<open>PropertySearchParams\<close>, \<open>searchProperties\<close> answers \<open>success: true\<close> with exactly
  those of the five mock properties, in their original order, that satisfy every filter
  given: price within the given min..max range, bedrooms equal to the given number,
  propertyType equal to the given type without regard to case, the given location a
  substring of the address without regard to case. A filter that is absent excludes
  nothing, and neither does a \<open>bedrooms\<close> of 0 or an empty \<open>propertyType\<close>, which the
  code takes for absent.
\<close>

theorem searchProperties_matching_subset:
  assumes "well_typed_search p"
  shows "searchProperties E mockProperties p =
           (Inr \<lparr> success = True, properties = filter (amended_match p) mockProperties \<rparr>,
            mockProperties)"
  using searchProperties_well_typed [OF assms, of E mockProperties]
        searchProperties_store [of E mockProperties p]
  by (cases "searchProperties E mockProperties p") simp

text \<open>
  Homes of three bedrooms in Austin between 700000 and 1000000: the one on Congress
  Avenue.
\<close>

theorem searchProperties_matching_subset_witness:
  "well_typed_search
     (JObj [(''priceRange'', JObj [(''min'', JNum 700000), (''max'', JNum 1000000)]),
            (''bedrooms'', JNum 3), (''propertyType'', JStr ''single family HOME''),
            (''location'', JStr ''AUSTIN'')]) \<and>
   searchProperties sample_env mockProperties
     (JObj [(''priceRange'', JObj [(''min'', JNum 700000), (''max'', JNum 1000000)]),
            (''bedrooms'', JNum 3), (''propertyType'', JStr ''single family HOME''),
            (''location'', JStr ''AUSTIN'')]) =
     (Inr \<lparr> success = True,
            properties =
              [\<lparr> id_p = ''prop3'', address = ''789 Congress Ave, Austin, Texas'',
                 price = 950000, bedrooms = 3, propertyType = ''Single Family Home'',
                 description = ''Spacious family home close to downtown Austin'' \<rparr>] \<rparr>,
      mockProperties)"
proof -
  let ?p = "JObj [(''priceRange'', JObj [(''min'', JNum 700000), (''max'', JNum 1000000)]),
            (''bedrooms'', JNum 3), (''propertyType'', JStr ''single family HOME''),
            (''location'', JStr ''AUSTIN'')]"
  have wt: "well_typed_search ?p" by (simp add: well_typed_search_def getp_opt_def)
  have low: "toLowerCase ''single family HOME'' = ''single family home''"
            "toLowerCase ''AUSTIN'' = ''austin''"
    by (simp_all add: toLowerCase_def lower_char_def)
  have m: "amended_match ?p q \<longleftrightarrow>
             700000 \<le> price q \<and> price q \<le> 1000000 \<and> bedrooms q = 3 \<and>
             toLowerCase (propertyType q) = ''single family home'' \<and>
             str_includes (toLowerCase (address q)) ''austin''" for q
    by (simp add: amended_match_def getp_opt_def low str_includes_sublist)
  have low5: "toLowerCase ''123 Main St, San Francisco, CA'' = ''123 main st, san francisco, ca''"
    "toLowerCase ''456 Market St, San Francisco, CA'' = ''456 market st, san francisco, ca''"
    "toLowerCase ''789 Congress Ave, Austin, Texas'' = ''789 congress ave, austin, texas''"
    "toLowerCase ''101 Barton Springs Rd, Austin, Texas'' = ''101 barton springs rd, austin, texas''"
    "toLowerCase ''222 East 6th St, Austin, Texas'' = ''222 east 6th st, austin, texas''"
    "toLowerCase ''Single Family Home'' = ''single family home''"
    "toLowerCase ''Condo'' = ''condo''"
    "toLowerCase ''Townhouse'' = ''townhouse''"
    by (simp_all add: toLowerCase_def lower_char_def)
  have "filter (amended_match ?p) mockProperties =
          [\<lparr> id_p = ''prop3'', address = ''789 Congress Ave, Austin, Texas'',
             price = 950000, bedrooms = 3, propertyType = ''Single Family Home'',
             description = ''Spacious family home close to downtown Austin'' \<rparr>]"
    unfolding m by (simp add: mockProperties_def low5)
  with searchProperties_matching_subset [OF wt, of sample_env] wt show ?thesis by simp
qed

section \<open>The two request shapes\<close>

lemma nested_request_shape: "nested_shape E (nested_request i a) = Inr True"
  by (simp add: nested_shape_def nested_request_def bind_e_def getp_opt_def gt_zero_def
        ToNumber_def)

lemma nested_request_toolCall: "nested_toolCall (nested_request i a) = Inr (i, a)"
  by (simp add: nested_toolCall_def nested_request_def bind_e_def getp_opt_def)






section \<open>The envelope on failure\<close>

text \<open>
  Claim C4 asks that the envelope carries the extracted tool-call id on failure too.
  The sync-contact route does not do so for a request of the nested shape: with the
  CRM down, the request with id \<open>call_1\<close> is answered under the id \<open>unknown\<close>, because
  the \<open>catch\<close> reads \<open>req.body.toolCallId\<close> only. The schedule-viewing route does the
  same when the extraction throws. The \<open>catch\<close> of the search route reads the nested id
  first and answers under \<open>call_1\<close>.
\<close>

theorem sync_failure_loses_toolCallId:
  "sync_extract sample_env
     (nested_request (JStr ''call_1'') (JObj [(''email'', JStr ''ada@example.com'')])) =
     Inr (JStr ''call_1'', JObj [(''email'', JStr ''ada@example.com'')]) \<and>
   sync_contact_route sample_env down_hubspot ()
     \<lparr> headers = [],
       body = nested_request (JStr ''call_1'') (JObj [(''email'', JStr ''ada@example.com'')]) \<rparr> =
     (\<lparr> status = 500,
        json = envelope (JStr ''unknown'')
                 (JObj [(''success'', JBool False),
                        (''error'', JStr ''Failed to sync contact with HubSpot''),
                        (''details'', JStr ''HubSpot unavailable'')]) \<rparr>,
      (), [DoSearch ''email'' ''EQ'' (JStr ''ada@example.com'') 1]) \<and>
   fst (schedule_viewing_route sample_env down_hubspot mockProperties ()
          \<lparr> headers = [],
            body = JObj [(''message'', JObj [(''toolCalls'', JArr [JObj [(''id'', JStr ''call_1'')]])])] \<rparr>) =
     \<lparr> status = 500,
       json = envelope (JStr ''unknown'')
                (JObj [(''success'', JBool False),
                       (''message'', JStr ''Failed to schedule viewing due to server error''),
                       (''error'', JStr ''TypeError'')]) \<rparr> \<and>
   fst (search_route sample_env mockProperties
          \<lparr> headers = [],
            body = JObj [(''message'', JObj [(''toolCalls'', JArr [JObj [(''id'', JStr ''call_1'')]])])] \<rparr>) =
     \<lparr> status = 500,
       json = envelope (JStr ''call_1'')
                (JObj [(''success'', JBool False),
                       (''error'', JStr ''Failed to search properties''),
                       (''message'', JStr ''TypeError'')]) \<rparr>"
proof -
  let ?body = "JObj [(''message'', JObj [(''toolCalls'', JArr [JObj [(''id'', JStr ''call_1'')]])])]"
  have shape: "nested_shape sample_env ?body = Inr True"
    by (simp add: nested_shape_def bind_e_def getp_opt_def gt_zero_def ToNumber_def)
  have thrown: "nested_toolCall ?body = Inl TypeError"
    by (simp add: nested_toolCall_def bind_e_def getp_opt_def)
  have 1: "sync_extract sample_env
     (nested_request (JStr ''call_1'') (JObj [(''email'', JStr ''ada@example.com'')])) =
     Inr (JStr ''call_1'', JObj [(''email'', JStr ''ada@example.com'')])"
    by (simp add: sync_extract_def nested_request_shape nested_request_toolCall bind_e_def
          parse_args_def)
  have 2: "sync_contact_route sample_env down_hubspot ()
     \<lparr> headers = [],
       body = nested_request (JStr ''call_1'') (JObj [(''email'', JStr ''ada@example.com'')]) \<rparr> =
     (\<lparr> status = 500,
        json = envelope (JStr ''unknown'')
                 (JObj [(''success'', JBool False),
                        (''error'', JStr ''Failed to sync contact with HubSpot''),
                        (''details'', JStr ''HubSpot unavailable'')]) \<rparr>,
      (), [DoSearch ''email'' ''EQ'' (JStr ''ada@example.com'') 1])"
    by (simp add: sync_contact_route_def 1 Let_def createOrUpdateContact_def down_hubspot_def
          message_or_unknown_def js_or_def)
       (simp add: nested_request_def getp_opt_def)
  have 3: "fst (schedule_viewing_route sample_env down_hubspot mockProperties ()
          \<lparr> headers = [], body = ?body \<rparr>) =
     \<lparr> status = 500,
       json = envelope (JStr ''unknown'')
                (JObj [(''success'', JBool False),
                       (''message'', JStr ''Failed to schedule viewing due to server error''),
                       (''error'', JStr ''TypeError'')]) \<rparr>"
    by (simp add: schedule_viewing_route_def schedule_extract_def shape thrown bind_e_def
          message_or_unknown_def js_or_def getp_opt_def)
  have 4: "fst (search_route sample_env mockProperties \<lparr> headers = [], body = ?body \<rparr>) =
     \<lparr> status = 500,
       json = envelope (JStr ''call_1'')
                (JObj [(''success'', JBool False),
                       (''error'', JStr ''Failed to search properties''),
                       (''message'', JStr ''TypeError'')]) \<rparr>"
    by (simp add: search_route_def search_extract_def shape thrown bind_e_def
          message_or_unknown_def js_or_def getp_opt_def index0_opt_def Let_def)
  from 1 2 3 4 show ?thesis by (intro conjI)
qed

end
